theory Spec2Isabelle
  imports Main
begin

section \<open>Strings\<close>

text \<open>
  A JavaScript string is a sequence of UTF-16 code units. The model keeps the code
  units as natural numbers, so that \<open>length\<close> is the \<open>.length\<close> of the source and the
  Chinese literals of the selector tables keep their code units. \<open>js\<close> turns an ASCII
  literal into its code units.
\<close>

type_synonym jstring = "nat list"

definition js :: "string \<Rightarrow> jstring" where
  "js s = map of_char s"

text \<open>\<open>String.prototype.includes\<close>: the argument occurs as a contiguous run.\<close>

fun starts_with :: "jstring \<Rightarrow> jstring \<Rightarrow> bool" where
  "starts_with s [] = True"
| "starts_with [] (p # ps) = False"
| "starts_with (c # cs) (p # ps) = (c = p \<and> starts_with cs ps)"

fun str_includes :: "jstring \<Rightarrow> jstring \<Rightarrow> bool" where
  "str_includes [] sub = (sub = [])"
| "str_includes (c # cs) sub = (starts_with (c # cs) sub \<or> str_includes cs sub)"

text \<open>ASCII case folding, as the \<open>i\<close> flag of an attribute selector compares.\<close>

definition lower_unit :: "nat \<Rightarrow> nat" where
  "lower_unit c = (if 65 \<le> c \<and> c \<le> 90 then c + 32 else c)"

definition lower :: "jstring \<Rightarrow> jstring" where
  "lower s = map lower_unit s"

section \<open>The page address and the site predicates\<close>

record location =
  href :: jstring
  pathname :: jstring

definition isChatGPTPage :: "location \<Rightarrow> bool" where
  "isChatGPTPage l =
     (str_includes (href l) (js ''chat.openai.com'') \<or> str_includes (href l) (js ''chatgpt.com''))"

definition isClaudePage :: "location \<Rightarrow> bool" where
  "isClaudePage l = str_includes (href l) (js ''claude.ai'')"

definition isGeminiPage :: "location \<Rightarrow> bool" where
  "isGeminiPage l = str_includes (href l) (js ''gemini.google.com'')"

definition isGrokPage :: "location \<Rightarrow> bool" where
  "isGrokPage l =
     (str_includes (href l) (js ''grok.com'') \<or>
      (str_includes (href l) (js ''x.com'') \<and> str_includes (pathname l) (js ''/i/grok'')))"

definition isPerplexityPage :: "location \<Rightarrow> bool" where
  "isPerplexityPage l = str_includes (href l) (js ''perplexity.ai'')"

definition isDeepSeekPage :: "location \<Rightarrow> bool" where
  "isDeepSeekPage l = str_includes (href l) (js ''chat.deepseek.com'')"

definition isDoubaoPage :: "location \<Rightarrow> bool" where
  "isDoubaoPage l = str_includes (href l) (js ''doubao.com'')"

definition isQwenPage :: "location \<Rightarrow> bool" where
  "isQwenPage l =
     (str_includes (href l) (js ''chat.qwen.ai'') \<or> str_includes (href l) (js ''qianwen.aliyun.com''))"

definition isSupportedAIPage :: "location \<Rightarrow> bool" where
  "isSupportedAIPage l =
     (isChatGPTPage l \<or> isClaudePage l \<or> isGeminiPage l \<or> isGrokPage l \<or>
      isPerplexityPage l \<or> isDeepSeekPage l \<or> isDoubaoPage l \<or> isQwenPage l)"

section \<open>The document\<close>

text \<open>
  The document is the list of its elements in document order; an element is named by
  its index. Of an element the model keeps what the engine reads or writes: the
  lower-case tag name, the attributes, the class list, the parent, whether
  \<open>offsetParent\<close> is non-null, \<open>isContentEditable\<close>, \<open>disabled\<close>, the \<open>value\<close> property
  (\<open>None\<close> where the element has none, as a \<open>div\<close>), the text content, the selection of
  a form control, the caret of an editable region (an offset into its text content) and
  the change handler a host framework may have attached
  (\<open>None\<close>: no \<open>__reactProps$\<close> or \<open>__reactEventHandlers$\<close> key; \<open>Some b\<close>: such a key,
  whose \<open>onChange\<close> is truthy iff \<open>b\<close>).
\<close>

record element =
  tag :: jstring
  attrs :: "(jstring \<times> jstring) list"
  classList :: "jstring list"
  parent :: "nat option"
  offsetParent :: "nat option"
  isContentEditable :: bool
  disabled :: bool
  val :: "jstring option"
  textContent :: jstring
  selectionStart :: nat
  selectionEnd :: nat
  caret :: "nat option"
  reactOnChange :: "bool option"

type_synonym document = "element list"

definition attr :: "element \<Rightarrow> jstring \<Rightarrow> jstring option" where
  "attr e a = map_of (attrs e) a"

subsection \<open>Selectors\<close>

text \<open>
  The subset of CSS selectors the tables of the source use: type, id and class
  selectors, the attribute tests \<open>[a]\<close>, \<open>[a="v"]\<close>, \<open>[a*="v"]\<close> and \<open>[a*="v" i]\<close>, the
  pseudo-class \<open>:last-of-type\<close>, and the descendant combinator. A selector is the list
  of its compound selectors, the subject last.

  The pages are HTML documents. There a selector compares the value of an attribute
  code unit by code unit, except for the attributes of the list below, whose values it
  compares without regard to ASCII case. Of these the tables of the source use \<open>type\<close>.
\<close>

definition ci_attributes :: "jstring list" where
  "ci_attributes =
     map js
       [''accept'', ''accept-charset'', ''align'', ''alink'', ''axis'', ''bgcolor'',
        ''charset'', ''checked'', ''clear'', ''codetype'', ''color'', ''compact'',
        ''declare'', ''defer'', ''dir'', ''direction'', ''disabled'', ''enctype'', ''face'',
        ''frame'', ''hreflang'', ''http-equiv'', ''lang'', ''language'', ''link'', ''media'',
        ''method'', ''multiple'', ''nohref'', ''noresize'', ''noshade'', ''nowrap'',
        ''readonly'', ''rel'', ''rev'', ''rules'', ''scope'', ''scrolling'', ''selected'',
        ''shape'', ''target'', ''text'', ''type'', ''valign'', ''valuetype'', ''vlink'']"

definition same_value :: "jstring \<Rightarrow> jstring \<Rightarrow> jstring \<Rightarrow> bool" where
  "same_value a w v = (if a \<in> set ci_attributes then lower w = lower v else w = v)"

definition has_value :: "jstring \<Rightarrow> jstring \<Rightarrow> jstring \<Rightarrow> bool" where
  "has_value a w v =
     (if a \<in> set ci_attributes then str_includes (lower w) (lower v) else str_includes w v)"

datatype simple =
    Tag jstring
  | Ident jstring
  | Class jstring
  | AttrHas jstring
  | AttrEq jstring jstring
  | AttrSub jstring jstring
  | AttrSubCI jstring jstring
  | LastOfType

type_synonym compound = "simple list"
type_synonym selector = "compound list"

definition last_of_type :: "document \<Rightarrow> nat \<Rightarrow> bool" where
  "last_of_type d i =
     (\<not> list_ex (\<lambda>j. parent (d ! j) = parent (d ! i) \<and> tag (d ! j) = tag (d ! i))
          [Suc i ..< length d])"

fun simple_matches :: "document \<Rightarrow> nat \<Rightarrow> simple \<Rightarrow> bool" where
  "simple_matches d i (Tag t) = (tag (d ! i) = t)"
| "simple_matches d i (Ident x) = (attr (d ! i) (js ''id'') = Some x)"
| "simple_matches d i (Class c) = (c \<in> set (classList (d ! i)))"
| "simple_matches d i (AttrHas a) = (attr (d ! i) a \<noteq> None)"
| "simple_matches d i (AttrEq a v) =
     (case attr (d ! i) a of None \<Rightarrow> False | Some w \<Rightarrow> same_value a w v)"
| "simple_matches d i (AttrSub a v) =
     (case attr (d ! i) a of None \<Rightarrow> False | Some w \<Rightarrow> has_value a w v)"
| "simple_matches d i (AttrSubCI a v) =
     (case attr (d ! i) a of None \<Rightarrow> False | Some w \<Rightarrow> str_includes (lower w) (lower v))"
| "simple_matches d i LastOfType = last_of_type d i"

definition compound_matches :: "document \<Rightarrow> nat \<Rightarrow> compound \<Rightarrow> bool" where
  "compound_matches d i c = list_all (simple_matches d i) c"

text \<open>
  The ancestors of an element, the nearest first. A parent stands before its children
  in document order, which also ends the walk.
\<close>

function ancestors :: "document \<Rightarrow> nat \<Rightarrow> nat list" where
  "ancestors d i =
     (if i < length d then
        (case parent (d ! i) of
           None \<Rightarrow> []
         | Some p \<Rightarrow> if p < i then p # ancestors d p else [])
      else [])"
  by pat_completeness auto
termination
  by (relation "measure (\<lambda>(d, i). i)") auto

declare ancestors.simps [simp del]

text \<open>
  The descendant combinator: the compounds left of the subject, from the subject
  outwards, are matched by ancestors in that order.
\<close>

fun chain_matches :: "document \<Rightarrow> compound list \<Rightarrow> nat list \<Rightarrow> bool" where
  "chain_matches d [] as = True"
| "chain_matches d (c # cs) [] = False"
| "chain_matches d (c # cs) (a # as) =
     ((compound_matches d a c \<and> chain_matches d cs as) \<or> chain_matches d (c # cs) as)"

definition matches :: "document \<Rightarrow> selector \<Rightarrow> nat \<Rightarrow> bool" where
  "matches d sel i =
     (case rev sel of
        [] \<Rightarrow> False
      | c # cs \<Rightarrow> compound_matches d i c \<and> chain_matches d cs (ancestors d i))"

definition querySelectorAll :: "document \<Rightarrow> selector \<Rightarrow> nat list" where
  "querySelectorAll d sel = filter (matches d sel) [0 ..< length d]"

definition querySelector :: "document \<Rightarrow> selector \<Rightarrow> nat option" where
  "querySelector d sel =
     (case querySelectorAll d sel of [] \<Rightarrow> None | i # _ \<Rightarrow> Some i)"

subsection \<open>The input locator\<close>

text \<open>The selector lists of \<open>findAIInput\<close>, one per site, in the order of the source.\<close>

definition editable :: simple where
  "editable = AttrEq (js ''contenteditable'') (js ''true'')"

definition textbox_role :: simple where
  "textbox_role = AttrEq (js ''role'') (js ''textbox'')"

definition placeholder_has :: "jstring \<Rightarrow> simple" where
  "placeholder_has v = AttrSub (js ''placeholder'') v"

definition chatgpt_selectors :: "selector list" where
  "chatgpt_selectors =
    [[[Ident (js ''prompt-textarea'')]],
     [[Tag (js ''textarea''), AttrEq (js ''data-id'') (js ''root'')]],
     [[Tag (js ''textarea''), placeholder_has (js ''Send'')]],
     [[Tag (js ''textarea''), placeholder_has (js ''Message'')]],
     [[Tag (js ''textarea''), placeholder_has [0x53D1, 0x9001]]],
     [[Tag (js ''textarea''), placeholder_has [0x6D88, 0x606F]]],
     [[Tag (js ''main'')], [Tag (js ''textarea'')]],
     [[Tag (js ''form'')], [Tag (js ''textarea'')]],
     [[editable, AttrSub (js ''data-testid'') (js ''composer'')]],
     [[Tag (js ''div''), editable, textbox_role]],
     [[textbox_role]],
     [[Tag (js ''textarea'')]],
     [[Tag (js ''div''), editable]]]"

definition claude_selectors :: "selector list" where
  "claude_selectors =
    [[[Tag (js ''div''), editable, AttrEq (js ''enterkeyhint'') (js ''enter'')]],
     [[Tag (js ''div''), Class (js ''ProseMirror''), editable]],
     [[Tag (js ''div''), editable]],
     [[Tag (js ''fieldset'')], [Tag (js ''div''), editable]],
     [[textbox_role]],
     [[Tag (js ''textarea'')]]]"

definition gemini_selectors :: "selector list" where
  "gemini_selectors =
    [[[Tag (js ''rich-textarea'')], [Class (js ''ql-editor''), editable]],
     [[Tag (js ''rich-textarea'')], [Tag (js ''div''), editable]],
     [[Tag (js ''div''), Class (js ''ql-editor''), editable]],
     [[Tag (js ''div''), editable, textbox_role]],
     [[textbox_role, editable]],
     [[Tag (js ''div''), editable]],
     [[Tag (js ''textarea'')]]]"

definition grok_selectors :: "selector list" where
  "grok_selectors =
    [[[Tag (js ''div''), Class (js ''ProseMirror''), editable]],
     [[Tag (js ''div''), Class (js ''tiptap''), editable]],
     [[Tag (js ''div''), editable, textbox_role]],
     [[Tag (js ''div''), editable]],
     [[textbox_role]],
     [[Tag (js ''textarea'')]]]"

definition perplexity_selectors :: "selector list" where
  "perplexity_selectors =
    [[[Tag (js ''div''), editable, textbox_role]],
     [[Tag (js ''div''), editable, Class (js ''overflow-auto'')]],
     [[Tag (js ''div''), editable]],
     [[textbox_role]],
     [[Tag (js ''textarea''), placeholder_has (js ''Ask'')]],
     [[Tag (js ''textarea''), placeholder_has (js ''Follow'')]],
     [[Tag (js ''textarea'')]]]"

definition deepseek_selectors :: "selector list" where
  "deepseek_selectors =
    [[[Tag (js ''textarea''), placeholder_has [0x8F93, 0x5165]]],
     [[Tag (js ''textarea''), Class (js ''el-textarea__inner'')]],
     [[Tag (js ''div''), editable]],
     [[textbox_role]],
     [[Tag (js ''textarea'')]],
     [[Tag (js ''input''), AttrEq (js ''type'') (js ''text'')]]]"

definition doubao_selectors :: "selector list" where
  "doubao_selectors =
    [[[Tag (js ''textarea''), placeholder_has [0x8F93, 0x5165]]],
     [[Tag (js ''textarea''), placeholder_has [0x8BF7, 0x8F93, 0x5165]]],
     [[Tag (js ''div''), editable, textbox_role]],
     [[Tag (js ''div''), Class (js ''editor-content''), editable]],
     [[textbox_role]],
     [[Tag (js ''textarea'')]],
     [[Tag (js ''div''), editable]]]"

definition qwen_selectors :: "selector list" where
  "qwen_selectors =
    [[[Tag (js ''textarea''), placeholder_has [0x8F93, 0x5165]]],
     [[Tag (js ''textarea''), placeholder_has [0x95EE, 0x6211]]],
     [[Tag (js ''div''), editable, textbox_role]],
     [[Tag (js ''textarea''), Class (js ''ant-input'')]],
     [[textbox_role]],
     [[Tag (js ''textarea'')]],
     [[Tag (js ''div''), editable]]]"

text \<open>
  The chain of \<open>if\<close>/\<open>else if\<close> of \<open>findAIInput\<close>. It has no final \<open>else\<close>: on a page
  that no site predicate accepts, \<open>selectors\<close> keeps its initial value, the empty list.
\<close>

definition input_selectors :: "location \<Rightarrow> selector list" where
  "input_selectors l =
     (if isChatGPTPage l then chatgpt_selectors
      else if isClaudePage l then claude_selectors
      else if isGeminiPage l then gemini_selectors
      else if isGrokPage l then grok_selectors
      else if isPerplexityPage l then perplexity_selectors
      else if isDeepSeekPage l then deepseek_selectors
      else if isDoubaoPage l then doubao_selectors
      else if isQwenPage l then qwen_selectors
      else [])"

definition visible :: "element \<Rightarrow> bool" where
  "visible e = (offsetParent e \<noteq> None)"

text \<open>
  The two nested loops of \<open>findAIInput\<close>: for each selector, the first match in
  document order whose \<open>offsetParent\<close> is not null is returned. Every selector of the
  tables is well formed, so \<open>querySelectorAll\<close> does not raise and the handler around
  it is never entered.
\<close>

fun first_visible :: "document \<Rightarrow> selector list \<Rightarrow> nat option" where
  "first_visible d [] = None"
| "first_visible d (sel # sels) =
     (case find (\<lambda>i. visible (d ! i)) (querySelectorAll d sel) of
        Some i \<Rightarrow> Some i
      | None \<Rightarrow> first_visible d sels)"

definition findAIInput :: "location \<Rightarrow> document \<Rightarrow> nat option" where
  "findAIInput l d = first_visible d (input_selectors l)"

text \<open>
  What the specification calls a text-entry surface: the tag is \<open>textarea\<close> or \<open>input\<close>,
  or the element is content-editable (by attribute or by property), or it has the
  textbox role. The locator itself has no such test; this predicate states the
  specification's words for comparison.
\<close>

definition spec_text_entry_surface :: "element \<Rightarrow> bool" where
  "spec_text_entry_surface e =
     (tag e = js ''textarea'' \<or> tag e = js ''input'' \<or>
      attr e (js ''contenteditable'') = Some (js ''true'') \<or> isContentEditable e \<or>
      attr e (js ''role'') = Some (js ''textbox''))"

section \<open>The browser, the host page and the engine's state\<close>

text \<open>
  The events the engine dispatches on the target: \<open>new Event('input')\<close>,
  \<open>new Event('change')\<close>, the \<open>keydown\<close> of the space key, the \<open>InputEvent\<close> of type
  \<open>insertText\<close> with its data, and the three keyboard events of the Enter key.
\<close>

datatype event =
    InputEvent
  | ChangeEvent
  | SpaceKeydown
  | InsertTextEvent jstring
  | EnterKeydown
  | EnterKeypress
  | EnterKeyup

text \<open>
  A call of \<open>document.execCommand\<close> raises, or returns its flag; with the flag comes
  the element as the command left it.
\<close>

datatype 'a exec = Threw | Returned bool 'a

datatype command = Paste | InsertText

text \<open>
  The toasts of the source, by their message: input not found (error, 5000 ms);
  insertion failed but the text was copied, paste by hand (info, 5000 ms); insertion
  and copy both failed (error, 6000 ms); the text is inserted, send by hand
  (info, 2500 ms).
\<close>

datatype message =
    MsgInputNotFound
  | MsgCopiedPasteManually
  | MsgInsertAndCopyFailed
  | MsgInsertedSendManually

datatype severity = SevError | SevInfo | SevSuccess

text \<open>
  The errors a promise is rejected with: \<open>new Error('...')\<close> with the input-not-found
  message, \<open>new Error('User cancelled')\<close>, and an exception that a DOM call or a
  property assignment raised.
\<close>

datatype error = InputNotFound | UserCancelled | Raised

datatype outcome = Resolved | Rejected error

datatype promise = Insertion | Sending

datatype routine = PerformInsertion | SendPrompt

text \<open>
  What the engine does to the page, in the order it does it. \<open>ASettle\<close> is the call
  of \<open>resolve\<close> or \<open>reject\<close> (or the return of the \<open>async\<close> function) that settles the
  promise the caller holds; \<open>ADelay\<close> is a timer of \<open>setTimeout\<close> that has fired;
  \<open>ADeclare\<close> is the closing log line of the insertion cascade, which says whether a
  strategy took.
\<close>

datatype action =
    AModalOpen "jstring list"
  | AModalClose
  | AEnter routine
  | AFocus nat
  | AWriteText jstring
  | AClear nat
  | AExecCommand command "bool option"
  | ADelay nat
  | ACursor nat nat
  | ADispatch nat event
  | AAssign nat jstring
  | ASelectAll nat
  | AReactLookup nat
  | AReact nat
  | ADeclare bool
  | AClick nat
  | ANotify message severity nat
  | ASettle promise outcome

text \<open>
  What an assignment \<open>o[name] = v\<close> does when \<open>o\<close> has no own property of that name
  and inherits from an \<open>input\<close> element: it makes an own property, or it raises (the
  name is an accessor of the element, whose setter refuses \<open>o\<close> as receiver, or a
  read-only property, which the strict script may not assign), or it does nothing.
\<close>

datatype put = Stored | Raises | Ignored

text \<open>
  What the engine cannot decide is a parameter: the address of the page; whether
  \<open>navigator.clipboard.writeText\<close> exists and whether its promise is fulfilled; whether
  \<open>focus()\<close> of the located element raises; what \<open>execCommand('paste')\<close> and
  \<open>execCommand('insertText', false, text)\<close> do to the focused element (the first
  read 50 ms later, when the engine looks); what the listeners of the host page do to
  the target when an event is dispatched on it; and what the host's change handler does
  when the engine calls it; and which names an \<open>input\<close> element hands down to an
  object that has it as prototype. The host acts on the target element only. \<open>focus()\<close>
  raises at every call or at none, and no other DOM call of the engine raises: property
  writes and \<open>dispatchEvent\<close> do not, and listeners' exceptions do not reach the
  dispatcher.
\<close>

record env =
  location :: location
  clipboard_api :: bool
  writeText_ok :: bool
  focus_raises :: bool
  execPaste :: "jstring \<Rightarrow> element \<Rightarrow> element exec"
  execInsertText :: "jstring \<Rightarrow> element \<Rightarrow> element exec"
  host :: "event \<Rightarrow> element \<Rightarrow> element"
  reactHandler :: "element \<Rightarrow> element"
  inheritedPut :: "jstring \<Rightarrow> put"

record page =
  doc :: document
  clipboard :: jstring
  trace :: "action list"

definition emit :: "action \<Rightarrow> page \<Rightarrow> page" where
  "emit a s = s\<lparr>trace := trace s @ [a]\<rparr>"

definition upd_el :: "nat \<Rightarrow> (element \<Rightarrow> element) \<Rightarrow> page \<Rightarrow> page" where
  "upd_el i f s = s\<lparr>doc := (doc s)[i := f (doc s ! i)]\<rparr>"

definition dispatchEvent :: "env \<Rightarrow> nat \<Rightarrow> event \<Rightarrow> page \<Rightarrow> page" where
  "dispatchEvent en i ev s = upd_el i (host en ev) (emit (ADispatch i ev) s)"

subsection \<open>The value of a text control\<close>

text \<open>
  The value a \<open>textarea\<close> returns has its line breaks normalised: a carriage return
  followed by a line feed, and any other carriage return, reads as one line feed.
  Assigning to \<open>value\<close> stores the text, and if the value read afterwards differs from
  the one before, the browser moves the selection to its end.
\<close>

fun normalize_newlines :: "jstring \<Rightarrow> jstring" where
  "normalize_newlines [] = []"
| "normalize_newlines [c] = [if c = 13 then 10 else c]"
| "normalize_newlines (c # d # r) =
     (if c = 13 then
        (if d = 10 then 10 # normalize_newlines r else 10 # normalize_newlines (d # r))
      else c # normalize_newlines (d # r))"

definition set_value :: "jstring \<Rightarrow> element \<Rightarrow> element" where
  "set_value v e =
     (if val e = Some (normalize_newlines v) then e
      else e\<lparr>val := Some (normalize_newlines v),
             selectionStart := length (normalize_newlines v),
             selectionEnd := length (normalize_newlines v)\<rparr>)"

subsection \<open>Cursor placement\<close>

text \<open>
  \<open>setCursorToEnd(element, textLength)\<close>. On a \<open>textarea\<close> or \<open>input\<close> it assigns
  \<open>textLength\<close> to \<open>selectionStart\<close> and \<open>selectionEnd\<close>, which the browser clamps to the
  length of the value. On an editable region it collapses the selection at the end of
  the last child node, that is at the end of the text content. Elsewhere it only focuses.
\<close>

definition place_cursor :: "nat \<Rightarrow> element \<Rightarrow> element" where
  "place_cursor n e =
     (if tag e = js ''textarea'' \<or> tag e = js ''input'' then
        e\<lparr>selectionStart := min n (length (case val e of None \<Rightarrow> [] | Some v \<Rightarrow> v)),
          selectionEnd := min n (length (case val e of None \<Rightarrow> [] | Some v \<Rightarrow> v))\<rparr>
      else if isContentEditable e then e\<lparr>caret := Some (length (textContent e))\<rparr>
      else e)"

definition setCursorToEnd :: "nat \<Rightarrow> nat \<Rightarrow> page \<Rightarrow> page" where
  "setCursorToEnd i n s = upd_el i (place_cursor n) (emit (ACursor i n) s)"

subsection \<open>The insertion cascade\<close>

text \<open>
  The test of the paste strategy, 50 ms after the paste command:
  \<open>(value && value.length > 0) || (textContent && textContent.length > 0)\<close>.
\<close>

definition hasContent :: "element \<Rightarrow> bool" where
  "hasContent e =
     ((case val e of None \<Rightarrow> False | Some v \<Rightarrow> v \<noteq> []) \<or> textContent e \<noteq> [])"

text \<open>Clearing before the paste: the value of a \<open>textarea\<close>, the text of an editable region.\<close>

definition clear_content :: "element \<Rightarrow> element" where
  "clear_content e =
     (if tag e = js ''textarea'' then set_value [] e
      else if isContentEditable e then e\<lparr>textContent := []\<rparr>
      else e)"

text \<open>The assignment of the fourth method: the same two cases, nothing elsewhere.\<close>

definition assignable :: "element \<Rightarrow> bool" where
  "assignable e = (tag e = js ''textarea'' \<or> isContentEditable e)"

definition assign_content :: "jstring \<Rightarrow> element \<Rightarrow> element" where
  "assign_content t e =
     (if tag e = js ''textarea'' then set_value t e
      else if isContentEditable e then e\<lparr>textContent := t\<rparr>
      else e)"

text \<open>
  Strategy 1 of \<open>_performInsertion\<close>: write the text to the clipboard, clear the
  target, focus it, run the paste command and look 50 ms later whether the target has
  content. The flag says whether the strategy took; it is \<open>False\<close> in the four places
  where the source goes on to \<open>insertWithDirectMethod\<close>: no clipboard interface, a
  rejected write, a paste command that raises, and a target still empty.
\<close>

definition clipboardPaste :: "env \<Rightarrow> nat \<Rightarrow> jstring \<Rightarrow> page \<Rightarrow> bool \<times> page" where
  "clipboardPaste en i t s =
     (if clipboard_api en then
        (if writeText_ok en then
           (let s1 = emit (AWriteText t) (s\<lparr>clipboard := t\<rparr>);
                s2 = (if assignable (doc s1 ! i)
                      then emit (AClear i) (upd_el i clear_content s1) else s1);
                s3 = emit (AFocus i) s2
            in (case execPaste en t (doc s3 ! i) of
                  Threw \<Rightarrow> (False, emit (AExecCommand Paste None) s3)
                | Returned b e \<Rightarrow>
                    (let s4 = emit (ADelay 50)
                                (emit (AExecCommand Paste (Some b)) (upd_el i (\<lambda>_. e) s3))
                     in (hasContent (doc s4 ! i), s4))))
         else (False, s))
      else (False, s))"

text \<open>Method 1 of \<open>insertWithDirectMethod\<close>: the value of a \<open>textarea\<close>.\<close>

definition method1 :: "env \<Rightarrow> nat \<Rightarrow> jstring \<Rightarrow> page \<Rightarrow> page" where
  "method1 en i t s =
     (let s1 = emit (AAssign i t) (upd_el i (set_value t) s);
          s2 = setCursorToEnd i (length t) s1;
          s3 = dispatchEvent en i InputEvent s2;
          s4 = dispatchEvent en i ChangeEvent s3
      in dispatchEvent en i SpaceKeydown s4)"

text \<open>
  Method 2: an editable region. The \<open>insertText\<close> input event first; if the host left
  the region empty, the text content is assigned. Assigning the empty string to
  \<open>innerHTML\<close> empties the text content, and \<open>innerText\<close> is empty where the text
  content is.
\<close>

definition method2 :: "env \<Rightarrow> nat \<Rightarrow> jstring \<Rightarrow> page \<Rightarrow> page" where
  "method2 en i t s =
     (let s1 = emit (AClear i) (upd_el i (\<lambda>e. e\<lparr>textContent := []\<rparr>) s);
          s2 = emit (AFocus i) s1;
          s3 = dispatchEvent en i (InsertTextEvent t) s2
      in if textContent (doc s3 ! i) \<noteq> [] then setCursorToEnd i (length t) s3
         else
           (let s4 = emit (AAssign i t) (upd_el i (\<lambda>e. e\<lparr>textContent := t\<rparr>) s3);
                s5 = setCursorToEnd i (length t) s4;
                s6 = dispatchEvent en i InputEvent s5
            in dispatchEvent en i ChangeEvent s6))"

text \<open>Method 3: select the content and run the \<open>insertText\<close> command.\<close>

definition method3 :: "env \<Rightarrow> nat \<Rightarrow> jstring \<Rightarrow> page \<Rightarrow> bool \<times> page" where
  "method3 en i t s =
     (let s1 = emit (ASelectAll i) s
      in (case execInsertText en t (doc s1 ! i) of
            Threw \<Rightarrow> (False, emit (AExecCommand InsertText None) s1)
          | Returned b e \<Rightarrow>
              (let s2 = emit (AExecCommand InsertText (Some b)) (upd_el i (\<lambda>_. e) s1)
               in if b then
                    (True,
                     dispatchEvent en i ChangeEvent
                       (dispatchEvent en i InputEvent (setCursorToEnd i (length t) s2)))
                  else (False, s2))))"

text \<open>
  Method 4: assign, place the cursor, look for the change handler of the host
  framework among the keys of the element, and schedule its call if it is there. The
  flag says whether the call was scheduled.
\<close>

definition method4 :: "nat \<Rightarrow> jstring \<Rightarrow> page \<Rightarrow> bool \<times> page" where
  "method4 i t s =
     (let s1 = (if assignable (doc s ! i)
                then emit (AAssign i t) (upd_el i (assign_content t) s) else s);
          s2 = setCursorToEnd i (length t) s1;
          s3 = emit (AReactLookup i) s2
      in (reactOnChange (doc s3 ! i) = Some True, s3))"

text \<open>
  The four methods of \<open>insertWithDirectMethod\<close>, up to its closing log line.
  Methods 3 and 4 run only while \<open>success\<close> is false. The first flag says whether one
  of the first three methods took, the second whether method 4 scheduled the call of
  the host's handler; \<open>success\<close> is their disjunction.
\<close>

definition directMethods :: "env \<Rightarrow> nat \<Rightarrow> jstring \<Rightarrow> page \<Rightarrow> bool \<times> bool \<times> page" where
  "directMethods en i t s =
     (let (ok2, s2) =
            (if tag (doc s ! i) = js ''textarea'' then (True, method1 en i t s)
             else if isContentEditable (doc s ! i) then (True, method2 en i t s)
             else (False, s));
          (ok3, s3) = (if ok2 then (True, s2) else method3 en i t s2);
          (react, s4) = (if ok3 then (False, s3) else method4 i t s3)
      in (ok3, react, s4))"

text \<open>
  \<open>insertWithDirectMethod\<close>: after the methods it logs whether one took and resolves
  the promise in either case. The two timers it leaves run after that: the call of the
  host's change handler (0 ms, if method 4 scheduled it) and a last cursor placement
  (100 ms).
\<close>

definition insertWithDirectMethod :: "env \<Rightarrow> nat \<Rightarrow> jstring \<Rightarrow> page \<Rightarrow> outcome \<times> page" where
  "insertWithDirectMethod en i t s =
     (let (ok3, react, s4) = directMethods en i t s;
          s5 = emit (ASettle Insertion Resolved) (emit (ADeclare (ok3 \<or> react)) s4);
          s6 = (if react then
                  setCursorToEnd i (length t)
                    (upd_el i (reactHandler en) (emit (AReact i) (emit (ADelay 0) s5)))
                else s5)
      in (Resolved, setCursorToEnd i (length t) (emit (ADelay 100) s6)))"

text \<open>
  The handler of an exception in the body of \<open>_performInsertion\<close>: copy the text and
  tell the user to paste it, or reject. It is the only place where the text is copied
  for the user, and its write to the clipboard is the only one of such a run.
\<close>

definition insertionFallback :: "env \<Rightarrow> jstring \<Rightarrow> page \<Rightarrow> outcome \<times> page" where
  "insertionFallback en t s =
     (if clipboard_api en then
        (if writeText_ok en then
           (Resolved,
            emit (ASettle Insertion Resolved)
              (emit (ANotify MsgCopiedPasteManually SevInfo 5000)
                 (emit (AWriteText t) (s\<lparr>clipboard := t\<rparr>))))
         else
           (Rejected Raised,
            emit (ASettle Insertion (Rejected Raised))
              (emit (ANotify MsgInsertAndCopyFailed SevError 6000) s)))
      else (Rejected Raised, emit (ASettle Insertion (Rejected Raised)) s))"

text \<open>
  \<open>_performInsertion\<close>. The first DOM call on the located element, \<open>focus()\<close>, stands
  for the calls of the body that may raise into the outer handler.
\<close>

definition performInsertion :: "env \<Rightarrow> jstring \<Rightarrow> page \<Rightarrow> outcome \<times> page" where
  "performInsertion en t s0 =
     (let s = emit (AEnter PerformInsertion) s0
      in (case findAIInput (location en) (doc s) of
            None \<Rightarrow>
              (Rejected InputNotFound,
               emit (ASettle Insertion (Rejected InputNotFound))
                 (emit (ANotify MsgInputNotFound SevError 5000) s))
          | Some i \<Rightarrow>
              if focus_raises en then insertionFallback en t s
              else
                (let (ok1, s1) = clipboardPaste en i t (emit (AFocus i) s)
                 in if ok1 then
                      (Resolved,
                       emit (ASettle Insertion Resolved)
                         (dispatchEvent en i ChangeEvent
                            (dispatchEvent en i InputEvent
                               (setCursorToEnd i (length t) s1))))
                    else insertWithDirectMethod en i t s1)))"

section \<open>The variable template resolver\<close>

text \<open>
  The loop over \<open>/\{([^{}\n]+)\}/g\<close>: the successive first groups. A match starts at an
  opening brace, takes the longest run of code units other than braces and newline,
  which must not be empty, and ends at a closing brace; the search goes on after the
  match, or one code unit further where there is none.
\<close>

definition name_unit :: "nat \<Rightarrow> bool" where
  "name_unit c = (c \<noteq> 123 \<and> c \<noteq> 125 \<and> c \<noteq> 10)"

function regex_names :: "jstring \<Rightarrow> jstring list" where
  "regex_names [] = []"
| "regex_names (c # cs) =
     (if c = 123 \<and> takeWhile name_unit cs \<noteq> [] \<and>
         dropWhile name_unit cs \<noteq> [] \<and> hd (dropWhile name_unit cs) = 125
      then takeWhile name_unit cs # regex_names (tl (dropWhile name_unit cs))
      else regex_names cs)"
  by pat_completeness auto
termination
proof (relation "measure length")
  show "wf (measure length)" by simp
next
  fix c :: nat and cs :: "nat list"
  have "length (dropWhile name_unit cs) \<le> length cs"
    by (rule length_dropWhile_le)
  then have "length (tl (dropWhile name_unit cs)) \<le> length cs"
    by simp
  then show "(tl (dropWhile name_unit cs), c # cs) \<in> measure length" by simp
next
  fix c :: nat and cs :: "nat list"
  show "(cs, c # cs) \<in> measure length" by simp
qed

text \<open>
  The white space and line terminators \<open>String.prototype.trim\<close> removes. A name that
  consists of them alone is skipped (\<open>if (match[1].trim())\<close>).
\<close>

definition js_space :: "nat \<Rightarrow> bool" where
  "js_space c =
     (c \<in> {9, 10, 11, 12, 13, 32, 160, 0x1680, 0x2028, 0x2029, 0x202F, 0x205F, 0x3000, 0xFEFF}
      \<or> (0x2000 \<le> c \<and> c \<le> 0x200A))"

definition trim_nonempty :: "jstring \<Rightarrow> bool" where
  "trim_nonempty n = (\<not> list_all js_space n)"

text \<open>A \<open>Set\<close> keeps its members in the order of their first insertion.\<close>

definition set_add :: "'a list \<Rightarrow> 'a \<Rightarrow> 'a list" where
  "set_add xs x = (if x \<in> set xs then xs else xs @ [x])"

definition template_variables :: "jstring \<Rightarrow> jstring list" where
  "template_variables t = foldl set_add [] (filter trim_nonempty (regex_names t))"

text \<open>
  \<open>Object.entries\<close> lists the keys that are array indices first, by their number, and
  the other keys in the order of their creation. An array index is the canonical
  decimal form of a number below \<open>2^32 - 1\<close>. An object is the list of its properties in
  the order of their creation.
\<close>

definition index_value :: "jstring \<Rightarrow> nat" where
  "index_value k = foldl (\<lambda>n c. 10 * n + (c - 48)) 0 k"

definition is_array_index :: "jstring \<Rightarrow> bool" where
  "is_array_index k =
     (k \<noteq> [] \<and> list_all (\<lambda>c. 48 \<le> c \<and> c \<le> 57) k \<and> (k = [48] \<or> hd k \<noteq> 48) \<and>
      index_value k < 4294967295)"

definition own_keys :: "jstring list \<Rightarrow> jstring list" where
  "own_keys ks =
     sort_key index_value (filter is_array_index ks) @
     filter (\<lambda>k. \<not> is_array_index k) ks"

definition entries :: "(jstring \<times> 'a) list \<Rightarrow> (jstring \<times> 'a) list" where
  "entries obj =
     concat (map (\<lambda>k. case map_of obj k of None \<Rightarrow> [] | Some v \<Rightarrow> [(k, v)])
                 (own_keys (map fst obj)))"

text \<open>
  What the user does with the modal: the cancel button, a click on the overlay, or
  the insert button (Enter in the last field clicks it) with some text typed into the
  field of each variable.
\<close>

datatype user = PressCancel | ClickOverlay | PressSubmit "jstring \<Rightarrow> jstring"

text \<open>
  The object \<open>inputs\<close> of \<open>showVariableInputModal\<close>, a plain object that gets the
  field of each variable under the variable's name, in the order of the variables. The
  result is the list of its own keys in the order of their creation, or nothing if an
  assignment raised. Under the name \<open>__proto__\<close> the assignment runs the setter of
  \<open>Object.prototype\<close>: the field becomes the prototype of \<open>inputs\<close> and no own property
  is made. From then on \<open>inputs\<close> inherits from an \<open>input\<close> element, and what an
  assignment under a new name does is the browser's.
\<close>

fun build_inputs :: "(jstring \<Rightarrow> put) \<Rightarrow> bool \<Rightarrow> jstring list \<Rightarrow> jstring list \<Rightarrow> jstring list option" where
  "build_inputs inherited proto keys [] = Some keys"
| "build_inputs inherited proto keys (v # vs) =
     (if v \<in> set keys then build_inputs inherited proto keys vs
      else if v = js ''__proto__'' then build_inputs inherited True keys vs
      else if proto then
        (case inherited v of
           Stored \<Rightarrow> build_inputs inherited proto (keys @ [v]) vs
         | Raises \<Rightarrow> None
         | Ignored \<Rightarrow> build_inputs inherited proto keys vs)
      else build_inputs inherited proto (keys @ [v]) vs)"

definition inputs_of :: "env \<Rightarrow> jstring list \<Rightarrow> jstring list option" where
  "inputs_of en variables = build_inputs (inheritedPut en) False [] variables"

text \<open>
  \<open>showVariableInputModal\<close>: one field per variable; submitting reads the fields in the
  order of \<open>Object.entries(inputs)\<close> into the object \<open>values\<close>, so that a field which is
  no own property of \<open>inputs\<close> is shown and never read. An exception while the fields
  are made rejects the promise before the overlay is in the document. Both ways of
  cancelling remove the overlay and reject with \<open>User cancelled\<close>. The overlay and its
  fields are gone from the document before the function settles, so they are not
  elements of the document of the model.
\<close>

definition showVariableInputModal :: "env \<Rightarrow> jstring list \<Rightarrow> user \<Rightarrow> error + (jstring \<times> jstring) list" where
  "showVariableInputModal en variables u =
     (case inputs_of en variables of
        None \<Rightarrow> Inl Raised
      | Some keys \<Rightarrow>
          (case u of
             PressCancel \<Rightarrow> Inl UserCancelled
           | ClickOverlay \<Rightarrow> Inl UserCancelled
           | PressSubmit typed \<Rightarrow>
               Inr (map (\<lambda>(v, field). (v, typed field)) (entries (map (\<lambda>v. (v, v)) keys)))))"

text \<open>
  The replacement text of \<open>String.prototype.replace\<close>: \<open>$$\<close> is a dollar sign, \<open>$&\<close> the
  match, \<open>$`\<close> the text before it and \<open>$'\<close> the text after it. The pattern has no
  groups, so every other dollar sign stands for itself.
\<close>

fun expand :: "jstring \<Rightarrow> jstring \<Rightarrow> jstring \<Rightarrow> jstring \<Rightarrow> jstring" where
  "expand m b a [] = []"
| "expand m b a [c] = [c]"
| "expand m b a (c # d # r) =
     (if c = 36 then
        (if d = 36 then 36 # expand m b a r
         else if d = 38 then m @ expand m b a r
         else if d = 96 then b @ expand m b a r
         else if d = 39 then a @ expand m b a r
         else 36 # expand m b a (d # r))
      else c # expand m b a (d # r))"

text \<open>
  \<open>textToInsert.replace(new RegExp(`\\{${safeKey}\\}`, 'g'), value)\<close>. The key has no
  brace, and \<open>safeKey\<close> escapes every character the pattern syntax reads, so the pattern
  matches the key between braces, code unit by code unit. Every match, from left to
  right and without overlap, is replaced; \<open>before\<close> is the text left of the match.
\<close>

function replace_from :: "jstring \<Rightarrow> jstring \<Rightarrow> jstring \<Rightarrow> jstring \<Rightarrow> jstring" where
  "replace_from k v before [] = []"
| "replace_from k v before (c # cs) =
     (if starts_with (c # cs) (123 # k @ [125]) then
        expand (123 # k @ [125]) before (drop (Suc (length k)) cs) v @
        replace_from k v (before @ 123 # k @ [125]) (drop (Suc (length k)) cs)
      else c # replace_from k v (before @ [c]) cs)"
  by pat_completeness auto
termination
  by (relation "measure (\<lambda>(k, v, before, s). length s)") auto

definition replace_variable :: "jstring \<Rightarrow> jstring \<Rightarrow> jstring \<Rightarrow> jstring" where
  "replace_variable k v t = replace_from k v [] t"

definition substitute :: "jstring \<Rightarrow> (jstring \<times> jstring) list \<Rightarrow> jstring" where
  "substitute t filled = foldl (\<lambda>acc (k, v). replace_variable k v acc) t (entries filled)"

text \<open>
  \<open>insertPromptText\<close>. With no variable the text is inserted as it is. Otherwise the
  modal is shown; if the user cancels, the function returns, which resolves its
  promise, and \<open>_performInsertion\<close> is not called. Any other error of the modal is
  thrown again and rejects the promise.
\<close>

definition insertPromptText :: "env \<Rightarrow> user \<Rightarrow> jstring \<Rightarrow> page \<Rightarrow> outcome \<times> page" where
  "insertPromptText en u t s =
     (let variables = template_variables t
      in if variables \<noteq> [] then
           (case showVariableInputModal en variables u of
              Inl err \<Rightarrow>
                if err = UserCancelled
                then (Resolved,
                      emit (ASettle Insertion Resolved)
                        (emit AModalClose (emit (AModalOpen variables) s)))
                else (Rejected err, emit (ASettle Insertion (Rejected err)) s)
            | Inr filled \<Rightarrow>
                performInsertion en (substitute t filled)
                  (emit AModalClose (emit (AModalOpen variables) s)))
         else performInsertion en t s)"

section \<open>The send cascade\<close>

definition send_button :: "jstring \<Rightarrow> compound" where
  "send_button label = [Tag (js ''button''), AttrEq (js ''aria-label'') label]"

definition submit_button :: compound where
  "submit_button = [Tag (js ''button''), AttrEq (js ''type'') (js ''submit'')]"

definition chatgpt_send :: "selector list" where
  "chatgpt_send =
    [[[Tag (js ''button''), AttrEq (js ''data-testid'') (js ''send-button'')]],
     [send_button (js ''Send prompt'')],
     [send_button [0x53D1, 0x9001, 0x63D0, 0x793A]],
     [[Tag (js ''form'')], submit_button],
     [[Tag (js ''button''), Class (js ''absolute''), Class (js ''p-1''),
       Class (js ''rounded-md'')]]]"

definition gemini_send :: "selector list" where
  "gemini_send =
    [[send_button (js ''Send message'')],
     [send_button [0x53D1, 0x9001, 0x6D88, 0x606F]],
     [[Tag (js ''button''), Class (js ''send-button'')]],
     [[Tag (js ''button''), AttrSub (js ''mattooltip'') (js ''Send'')]],
     [[Tag (js ''button''), AttrSub (js ''mattooltip'') [0x53D1, 0x9001]]],
     [[Class (js ''input-area-container'')],
      [Tag (js ''button''), AttrSubCI (js ''aria-label'') (js ''send'')]],
     [[Tag (js ''button''), AttrHas (js ''jsname''),
       AttrSub (js ''data-idom-class'') (js ''send'')]]]"

definition grok_send :: "selector list" where
  "grok_send =
    [[send_button (js ''Send'')],
     [send_button [0x53D1, 0x9001]],
     [[Tag (js ''button''), AttrEq (js ''data-testid'') (js ''send-button'')]],
     [[Tag (js ''form'')], submit_button]]"

definition perplexity_send :: "selector list" where
  "perplexity_send =
    [[send_button (js ''Submit'')],
     [send_button [0x63D0, 0x4EA4]],
     [[Tag (js ''button''), Class (js ''bg-super'')]],
     [submit_button]]"

definition deepseek_send :: "selector list" where
  "deepseek_send =
    [[send_button [0x53D1, 0x9001]],
     [send_button (js ''Send'')],
     [[Tag (js ''div''), AttrEq (js ''role'') (js ''button''),
       AttrSub (js ''aria-label'') [0x53D1, 0x9001]]],
     [[Tag (js ''button''), Class (js ''el-button--primary'')]],
     [[Tag (js ''form'')], submit_button]]"

definition qwen_send :: "selector list" where
  "qwen_send =
    [[send_button [0x53D1, 0x9001]],
     [send_button (js ''Send'')],
     [[Tag (js ''button''), Class (js ''ant-btn-primary'')]],
     [submit_button]]"

definition generic_send :: "selector list" where
  "generic_send =
    [[submit_button],
     [[Tag (js ''button''), AttrSubCI (js ''aria-label'') (js ''send'')]],
     [[Tag (js ''button''), AttrSub (js ''aria-label'') [0x53D1, 0x9001]]],
     [[Tag (js ''form'')], [Tag (js ''button''), LastOfType]]]"

definition send_selectors :: "location \<Rightarrow> selector list" where
  "send_selectors l =
     (if isChatGPTPage l then chatgpt_send
      else if isGeminiPage l then gemini_send
      else if isGrokPage l then grok_send
      else if isPerplexityPage l then perplexity_send
      else if isDeepSeekPage l then deepseek_send
      else if isQwenPage l then qwen_send
      else generic_send)"

text \<open>
  The search for the send button: the first selector whose first match in the
  document has a non-null \<open>offsetParent\<close> gives the button.
\<close>

fun find_send_button :: "document \<Rightarrow> selector list \<Rightarrow> nat option" where
  "find_send_button d [] = None"
| "find_send_button d (sel # sels) =
     (case querySelector d sel of
        None \<Rightarrow> find_send_button d sels
      | Some b \<Rightarrow> if visible (d ! b) then Some b else find_send_button d sels)"

text \<open>
  \<open>sendViaKeyboard\<close>: focus, \<open>keydown\<close> and \<open>keypress\<close> of Enter, and 10 ms later
  \<open>keyup\<close> and an \<open>input\<close> event; then the promise is resolved. An exception rejects it.
\<close>

definition sendViaKeyboard :: "env \<Rightarrow> nat \<Rightarrow> page \<Rightarrow> outcome \<times> page" where
  "sendViaKeyboard en i s =
     (if focus_raises en then (Rejected Raised, emit (ASettle Sending (Rejected Raised)) s)
      else
        (let s1 = emit (AFocus i) s;
             s2 = dispatchEvent en i EnterKeydown s1;
             s3 = dispatchEvent en i EnterKeypress s2;
             s4 = emit (ADelay 10) s3;
             s5 = dispatchEvent en i EnterKeyup s4;
             s6 = dispatchEvent en i InputEvent s5
         in (Resolved, emit (ASettle Sending Resolved) s6)))"

text \<open>
  \<open>sendPrompt\<close>. On Claude and Doubao the keyboard comes first. Elsewhere the send
  button is clicked, 50 ms later, if one was found and it is not disabled; otherwise
  the keyboard is used.
\<close>

definition sendPrompt :: "env \<Rightarrow> page \<Rightarrow> outcome \<times> page" where
  "sendPrompt en s0 =
     (let s = emit (AEnter SendPrompt) s0
      in (case findAIInput (location en) (doc s) of
            None \<Rightarrow> (Rejected InputNotFound, emit (ASettle Sending (Rejected InputNotFound)) s)
          | Some i \<Rightarrow>
              if isClaudePage (location en) \<or> isDoubaoPage (location en)
              then sendViaKeyboard en i s
              else
                (case find_send_button (doc s) (send_selectors (location en)) of
                   None \<Rightarrow> sendViaKeyboard en i s
                 | Some b \<Rightarrow>
                     if \<not> disabled (doc s ! b)
                     then (Resolved,
                           emit (ASettle Sending Resolved) (emit (AClick b) (emit (ADelay 50) s)))
                     else sendViaKeyboard en i s)))"

section \<open>The two buttons of a prompt item\<close>

text \<open>
  The handlers \<open>attachPromptItemEvents\<close> binds. The insert button calls
  \<open>insertPromptText\<close>, as the message listener of the popup does. The send button
  chains: \<open>insertPromptText\<close>, then a timer of 100 ms, then \<open>sendPrompt\<close>; a rejection
  anywhere in the chain reaches the handler that shows the send-by-hand toast unless the
  error is the input-not-found one. The timers that \<open>insertWithDirectMethod\<close> leaves
  were set before its promise settled and are not longer than 100 ms, so they fire
  before the timer of the chain, which is set after the settlement. What the handlers
  do to the side menu and the floating button is left out.
\<close>

definition insertClick :: "env \<Rightarrow> user \<Rightarrow> jstring \<Rightarrow> page \<Rightarrow> page" where
  "insertClick en u content s = snd (insertPromptText en u content s)"

definition sendFailed :: "error \<Rightarrow> page \<Rightarrow> page" where
  "sendFailed err s =
     (if err = InputNotFound then s else emit (ANotify MsgInsertedSendManually SevInfo 2500) s)"

definition sendClick :: "env \<Rightarrow> user \<Rightarrow> jstring \<Rightarrow> page \<Rightarrow> page" where
  "sendClick en u content s =
     (case insertPromptText en u content s of
        (Rejected err, s1) \<Rightarrow> sendFailed err s1
      | (Resolved, s1) \<Rightarrow>
          (case sendPrompt en (emit (ADelay 100) s1) of
             (Rejected err, s2) \<Rightarrow> sendFailed err s2
           | (Resolved, s2) \<Rightarrow> s2))"

section \<open>Reading a run\<close>

text \<open>
  The actions a run added to the log, and the runs that add only actions of one kind.
\<close>

definition new_actions :: "page \<Rightarrow> page \<Rightarrow> action list" where
  "new_actions s s' = drop (length (trace s)) (trace s')"

definition grows :: "(action \<Rightarrow> bool) \<Rightarrow> page \<Rightarrow> page \<Rightarrow> bool" where
  "grows P s s' = (\<exists>xs. trace s' = trace s @ xs \<and> list_all P xs)"

text \<open>
  The actions of the insertion strategies: everything \<open>_performInsertion\<close> does to the
  target or the clipboard between its entry and the settlement, and in its timers.
  Toasts, the modal, the Enter key and the send button are not among them.
\<close>

definition cascade_action :: "action \<Rightarrow> bool" where
  "cascade_action a =
     (case a of
        AFocus _ \<Rightarrow> True
      | AWriteText _ \<Rightarrow> True
      | AClear _ \<Rightarrow> True
      | AExecCommand _ _ \<Rightarrow> True
      | ADelay _ \<Rightarrow> True
      | ACursor _ _ \<Rightarrow> True
      | ADispatch _ ev \<Rightarrow>
          (case ev of EnterKeydown \<Rightarrow> False | EnterKeypress \<Rightarrow> False | EnterKeyup \<Rightarrow> False
           | _ \<Rightarrow> True)
      | AAssign _ _ \<Rightarrow> True
      | ASelectAll _ \<Rightarrow> True
      | AReactLookup _ \<Rightarrow> True
      | AReact _ \<Rightarrow> True
      | ADeclare _ \<Rightarrow> True
      | _ \<Rightarrow> False)"

definition notification :: "action \<Rightarrow> bool" where
  "notification a = (case a of ANotify _ _ _ \<Rightarrow> True | _ \<Rightarrow> False)"

text \<open>
  The shape of a run of the insertion: some actions, the settlement of the insertion
  promise with the outcome the caller gets, and then only actions of the strategies
  (the timers).
\<close>

definition settles :: "(action \<Rightarrow> bool) \<Rightarrow> page \<Rightarrow> outcome \<times> page \<Rightarrow> bool" where
  "settles P s rs =
     (\<exists>xs ys. trace (snd rs) = trace s @ xs @ ASettle Insertion (fst rs) # ys \<and>
        list_all P xs \<and> list_all cascade_action ys)"

definition strategy_action :: "action \<Rightarrow> bool" where
  "strategy_action a = (cascade_action a \<or> a = AEnter PerformInsertion)"

definition insertion_phase :: "action \<Rightarrow> bool" where
  "insertion_phase a = (strategy_action a \<or> notification a)"

section \<open>Example pages\<close>

text \<open>Concrete addresses and elements, for the instances the properties are run on.\<close>

definition loc_example :: location where
  "loc_example = \<lparr>href = js ''https://example.com/'', pathname = js ''/''\<rparr>"

definition loc_chatgpt :: location where
  "loc_chatgpt = \<lparr>href = js ''https://chatgpt.com/'', pathname = js ''/''\<rparr>"

definition el_blank :: element where
  "el_blank =
     \<lparr>tag = js ''div'', attrs = [], classList = [], parent = None, offsetParent = Some 0,
      isContentEditable = False, disabled = False, val = None, textContent = [],
      selectionStart = 0, selectionEnd = 0, caret = None, reactOnChange = None\<rparr>"

definition el_textarea :: element where
  "el_textarea = el_blank\<lparr>tag := js ''textarea'', val := Some []\<rparr>"

definition el_label :: element where
  "el_label = el_blank\<lparr>attrs := [(js ''id'', js ''prompt-textarea'')]\<rparr>"

text \<open>A \<open>div\<close> with the textbox role that is not editable.\<close>

definition el_textbox :: element where
  "el_textbox = el_blank\<lparr>attrs := [(js ''role'', js ''textbox'')]\<rparr>"

text \<open>The same with a change handler of the host framework attached.\<close>

definition el_react :: element where
  "el_react = el_textbox\<lparr>reactOnChange := Some True\<rparr>"

text \<open>A disabled send button of ChatGPT.\<close>

definition el_send_off :: element where
  "el_send_off =
     el_blank\<lparr>tag := js ''button'', attrs := [(js ''data-testid'', js ''send-button'')],
              disabled := True\<rparr>"

text \<open>
  Some of the accessors of an \<open>input\<close> element, and a browser that knows these.
\<close>

definition input_accessors :: "jstring list" where
  "input_accessors =
     map js [''value'', ''name'', ''title'', ''id'', ''type'', ''placeholder'', ''className'']"

definition put_example :: "jstring \<Rightarrow> put" where
  "put_example n = (if n \<in> set input_accessors then Raises else Stored)"

text \<open>
  A browser without a clipboard interface whose commands return false and change
  nothing, on a page without listeners.
\<close>

definition env_plain :: "location \<Rightarrow> env" where
  "env_plain l =
     \<lparr>location = l, clipboard_api = False, writeText_ok = False, focus_raises = False,
      execPaste = (\<lambda>t e. Returned False e), execInsertText = (\<lambda>t e. Returned False e),
      host = (\<lambda>ev e. e), reactHandler = (\<lambda>e. e), inheritedPut = put_example\<rparr>"

text \<open>
  The same browser with a clipboard interface whose write is refused (no permission,
  or a document without focus).
\<close>

definition env_denied :: "location \<Rightarrow> env" where
  "env_denied l = (env_plain l)\<lparr>clipboard_api := True\<rparr>"

text \<open>
  A browser that grants the clipboard write and whose paste command returns false and
  changes nothing, as it does for a script without the permission to read the clipboard.
\<close>

definition env_ready :: "location \<Rightarrow> env" where
  "env_ready l = (env_plain l)\<lparr>clipboard_api := True, writeText_ok := True\<rparr>"

text \<open>
  A page whose framework keeps the value of the field in its own state and puts it
  back, here the empty value, when an \<open>input\<close> event arrives; the clipboard write is
  refused.
\<close>

definition env_reverting :: "location \<Rightarrow> env" where
  "env_reverting l =
     (env_denied l)\<lparr>host := (\<lambda>ev e. if ev = InputEvent then set_value [] e else e)\<rparr>"

text \<open>A page that sends the content of the field on Enter and empties the field.\<close>

definition env_submitting :: "location \<Rightarrow> env" where
  "env_submitting l =
     (env_plain l)\<lparr>host := (\<lambda>ev e. if ev = EnterKeydown then set_value [] e else e)\<rparr>"

text \<open>
  A \<open>textarea\<close> whose value is empty and whose child text, its default value, is not;
  a \<open>textarea\<close> with a change handler of the host framework attached; a \<open>textarea\<close>
  that holds a draft of the user.
\<close>

definition el_stale :: element where
  "el_stale = el_textarea\<lparr>textContent := js ''draft''\<rparr>"

definition el_controlled :: element where
  "el_controlled = el_textarea\<lparr>reactOnChange := Some True\<rparr>"

definition el_draft :: element where
  "el_draft = el_textarea\<lparr>val := Some (js ''draft'')\<rparr>"

definition page_of :: "document \<Rightarrow> page" where
  "page_of d = \<lparr>doc = d, clipboard = [], trace = []\<rparr>"

definition typed_12 :: "jstring \<Rightarrow> jstring" where
  "typed_12 v = (if v = js ''a'' then js ''1'' else if v = js ''b'' then js ''2'' else [])"

section \<open>Properties of the input locator\<close>

lemma loc_example_unsupported: "\<not> isSupportedAIPage loc_example"
  by (simp add: isSupportedAIPage_def isChatGPTPage_def isClaudePage_def isGeminiPage_def
      isGrokPage_def isPerplexityPage_def isDeepSeekPage_def isDoubaoPage_def isQwenPage_def
      loc_example_def js_def)

lemma loc_chatgpt_is_chatgpt: "isChatGPTPage loc_chatgpt"
  by (simp add: isChatGPTPage_def loc_chatgpt_def js_def)

lemma ancestors_root [simp]: "ancestors d 0 = []"
  by (simp add: ancestors.simps split: option.splits)

lemma js_inject [simp]: "js a = js b \<longleftrightarrow> a = b"
proof -
  have "inj (of_char :: char \<Rightarrow> nat)"
    by (rule injI) simp
  then show ?thesis
    by (simp add: js_def inj_map_eq_map)
qed

lemma js_Nil [simp]: "js a = [] \<longleftrightarrow> a = []" "[] = js a \<longleftrightarrow> a = []"
  by (auto simp: js_def)

lemma type_ci [simp]: "js ''type'' \<in> set ci_attributes"
  by (simp add: ci_attributes_def)

lemma table_attributes_cs [simp]:
  "js ''contenteditable'' \<notin> set ci_attributes" "js ''role'' \<notin> set ci_attributes"
  "js ''data-id'' \<notin> set ci_attributes" "js ''enterkeyhint'' \<notin> set ci_attributes"
  "js ''data-testid'' \<notin> set ci_attributes" "js ''aria-label'' \<notin> set ci_attributes"
  "js ''placeholder'' \<notin> set ci_attributes" "js ''mattooltip'' \<notin> set ci_attributes"
  "js ''data-idom-class'' \<notin> set ci_attributes"
  by (simp_all add: ci_attributes_def js_def)

lemma AttrEq_cs [simp]:
  "a \<notin> set ci_attributes \<Longrightarrow> simple_matches d i (AttrEq a v) = (attr (d ! i) a = Some v)"
  by (simp add: same_value_def split: option.split)

lemma AttrEq_ci [simp]:
  "a \<in> set ci_attributes \<Longrightarrow>
     simple_matches d i (AttrEq a v) =
       (case attr (d ! i) a of None \<Rightarrow> False | Some w \<Rightarrow> lower w = lower v)"
  by (simp add: same_value_def split: option.split)

lemma AttrSub_cs [simp]:
  "a \<notin> set ci_attributes \<Longrightarrow>
     simple_matches d i (AttrSub a v) =
       (case attr (d ! i) a of None \<Rightarrow> False | Some w \<Rightarrow> str_includes w v)"
  by (simp add: has_value_def split: option.split)

declare simple_matches.simps(5,6) [simp del]

lemma querySelectorAll_textarea_example:
  "querySelectorAll [el_textarea] [[Tag (js ''textarea'')]] = [0]"
  by (simp add: querySelectorAll_def matches_def compound_matches_def el_textarea_def
      el_blank_def)

text \<open>
  C1 (as the code has it). On a page that no site predicate accepts the locator has no
  selector at all: the list is empty and the result is not-found, whatever the
  document holds. There is no generic list to fall back to.
\<close>

theorem unknown_page_not_found:
  "\<not> isSupportedAIPage l \<Longrightarrow> input_selectors l = [] \<and> findAIInput l d = None"
  by (simp add: isSupportedAIPage_def findAIInput_def input_selectors_def)

theorem unknown_page_not_found_witness:
  "input_selectors loc_example = [] \<and> findAIInput loc_example [el_textarea] = None"
  using unknown_page_not_found [OF loc_example_unsupported, of "[el_textarea]"] by simp

text \<open>
  C1 as stated fails: on \<open>https://example.com/\<close> with a visible \<open>textarea\<close>, which the
  generic pattern \<open>textarea\<close> matches and which is a text-entry surface, the locator
  answers not-found.
\<close>

theorem unknown_page_generic_fallback_counterexample:
  "\<not> isSupportedAIPage loc_example \<and>
   querySelectorAll [el_textarea] [[Tag (js ''textarea'')]] = [0] \<and>
   visible el_textarea \<and> spec_text_entry_surface el_textarea \<and>
   findAIInput loc_example [el_textarea] = None"
  using loc_example_unsupported querySelectorAll_textarea_example
  by (simp add: findAIInput_def input_selectors_def isSupportedAIPage_def visible_def
      spec_text_entry_surface_def el_textarea_def el_blank_def)

lemma find_Some_first:
  "find P xs = Some i \<Longrightarrow> sorted xs \<Longrightarrow> i \<in> set xs \<and> P i \<and> (\<forall>j\<in>set xs. P j \<longrightarrow> i \<le> j)"
  by (induction xs) (auto split: if_splits)

lemma find_Some_holds: "find P xs = Some i \<Longrightarrow> i \<in> set xs \<and> P i"
  by (induction xs) (auto split: if_splits)

lemma find_None_all: "find P xs = None \<longleftrightarrow> (\<forall>j\<in>set xs. \<not> P j)"
  by (induction xs) auto

lemma sorted_querySelectorAll: "sorted (querySelectorAll d sel)"
  by (simp add: querySelectorAll_def sorted_wrt_filter)

lemma querySelectorAll_matches: "i \<in> set (querySelectorAll d sel) \<Longrightarrow> matches d sel i"
  by (simp add: querySelectorAll_def)

lemma first_visible_None:
  "first_visible d sels = None \<longleftrightarrow>
     (\<forall>sel\<in>set sels. \<forall>j\<in>set (querySelectorAll d sel). \<not> visible (d ! j))"
proof (induction sels)
  case Nil
  then show ?case by simp
next
  case (Cons sel sels)
  show ?case
  proof (cases "find (\<lambda>i. visible (d ! i)) (querySelectorAll d sel)")
    case None
    then have step: "first_visible d (sel # sels) = first_visible d sels" by simp
    from None have "\<forall>j\<in>set (querySelectorAll d sel). \<not> visible (d ! j)"
      by (simp add: find_None_all)
    then show ?thesis unfolding step using Cons.IH by simp
  next
    case (Some i)
    then have step: "first_visible d (sel # sels) = Some i" by simp
    from find_Some_holds [OF Some] show ?thesis unfolding step by auto
  qed
qed

lemma first_visible_Some:
  "first_visible d sels = Some i \<Longrightarrow>
     \<exists>k<length sels. i \<in> set (querySelectorAll d (sels ! k)) \<and> visible (d ! i) \<and>
        (\<forall>j\<in>set (querySelectorAll d (sels ! k)). visible (d ! j) \<longrightarrow> i \<le> j) \<and>
        (\<forall>k'<k. \<forall>j\<in>set (querySelectorAll d (sels ! k')). \<not> visible (d ! j))"
proof (induction sels)
  case Nil
  then show ?case by simp
next
  case (Cons sel sels)
  show ?case
  proof (cases "find (\<lambda>i. visible (d ! i)) (querySelectorAll d sel)")
    case None
    with Cons.prems have "first_visible d sels = Some i" by simp
    from Cons.IH [OF this] obtain k where k: "k < length sels"
      "i \<in> set (querySelectorAll d (sels ! k))" "visible (d ! i)"
      "\<forall>j\<in>set (querySelectorAll d (sels ! k)). visible (d ! j) \<longrightarrow> i \<le> j"
      "\<forall>k'<k. \<forall>j\<in>set (querySelectorAll d (sels ! k')). \<not> visible (d ! j)"
      by blast
    from None have none: "\<forall>j\<in>set (querySelectorAll d sel). \<not> visible (d ! j)"
      by (simp add: find_None_all)
    have "\<forall>k'<Suc k. \<forall>j\<in>set (querySelectorAll d ((sel # sels) ! k')). \<not> visible (d ! j)"
    proof (intro allI impI)
      fix k' assume "k' < Suc k"
      then show "\<forall>j\<in>set (querySelectorAll d ((sel # sels) ! k')). \<not> visible (d ! j)"
        using none k(5) by (cases k') auto
    qed
    with k show ?thesis
      by (intro exI [of _ "Suc k"]) simp
  next
    case (Some i')
    with Cons.prems have "i' = i" by simp
    with Some find_Some_first [OF _ sorted_querySelectorAll, of "\<lambda>i. visible (d ! i)" d sel i]
    show ?thesis by (intro exI [of _ 0]) simp
  qed
qed

text \<open>
  Every pattern of the tables but one selects by itself a \<open>textarea\<close>, an \<open>input\<close>, a
  content-editable node or a textbox role. The exception is the id pattern
  \<open>#prompt-textarea\<close>, the first of the ChatGPT list.
\<close>

lemmas selector_defs = matches_def compound_matches_def editable_def textbox_role_def
  placeholder_has_def spec_text_entry_surface_def

lemma claude_text_entry:
  "\<forall>sel\<in>set claude_selectors. matches d sel i \<longrightarrow> spec_text_entry_surface (d ! i)"
  by (simp add: claude_selectors_def selector_defs)

lemma gemini_text_entry:
  "\<forall>sel\<in>set gemini_selectors. matches d sel i \<longrightarrow> spec_text_entry_surface (d ! i)"
  by (simp add: gemini_selectors_def selector_defs)

lemma grok_text_entry:
  "\<forall>sel\<in>set grok_selectors. matches d sel i \<longrightarrow> spec_text_entry_surface (d ! i)"
  by (simp add: grok_selectors_def selector_defs)

lemma perplexity_text_entry:
  "\<forall>sel\<in>set perplexity_selectors. matches d sel i \<longrightarrow> spec_text_entry_surface (d ! i)"
  by (simp add: perplexity_selectors_def selector_defs)

lemma deepseek_text_entry:
  "\<forall>sel\<in>set deepseek_selectors. matches d sel i \<longrightarrow> spec_text_entry_surface (d ! i)"
  by (simp add: deepseek_selectors_def selector_defs)

lemma doubao_text_entry:
  "\<forall>sel\<in>set doubao_selectors. matches d sel i \<longrightarrow> spec_text_entry_surface (d ! i)"
  by (simp add: doubao_selectors_def selector_defs)

lemma qwen_text_entry:
  "\<forall>sel\<in>set qwen_selectors. matches d sel i \<longrightarrow> spec_text_entry_surface (d ! i)"
  by (simp add: qwen_selectors_def selector_defs)

lemma chatgpt_text_entry:
  "\<forall>sel\<in>set (tl chatgpt_selectors). matches d sel i \<longrightarrow> spec_text_entry_surface (d ! i)"
  by (simp add: chatgpt_selectors_def selector_defs)

lemma other_tables_text_entry:
  "\<not> isChatGPTPage l \<Longrightarrow> sel \<in> set (input_selectors l) \<Longrightarrow> matches d sel i \<Longrightarrow>
     spec_text_entry_surface (d ! i)"
  unfolding input_selectors_def
  using claude_text_entry [of d i] gemini_text_entry [of d i] grok_text_entry [of d i]
    perplexity_text_entry [of d i] deepseek_text_entry [of d i] doubao_text_entry [of d i]
    qwen_text_entry [of d i]
  by (auto split: if_splits)

lemma nth_Suc_in_tl: "Suc k < length xs \<Longrightarrow> xs ! Suc k \<in> set (tl xs)"
  by (cases xs) simp_all

lemma selectors_text_entry:
  assumes "k < length (input_selectors l)"
    and "i \<in> set (querySelectorAll d (input_selectors l ! k))"
  shows "spec_text_entry_surface (d ! i) \<or> (isChatGPTPage l \<and> k = 0)"
proof -
  from assms(2) have m: "matches d (input_selectors l ! k) i"
    by (rule querySelectorAll_matches)
  have in_set: "input_selectors l ! k \<in> set (input_selectors l)"
    using assms(1) by simp
  show ?thesis
  proof (cases "isChatGPTPage l")
    case True
    then have eq: "input_selectors l = chatgpt_selectors" by (simp add: input_selectors_def)
    show ?thesis
    proof (cases k)
      case 0
      with True show ?thesis by simp
    next
      case (Suc k')
      with assms(1) eq have "chatgpt_selectors ! k \<in> set (tl chatgpt_selectors)"
        by (simp add: nth_Suc_in_tl)
      with chatgpt_text_entry m eq show ?thesis by auto
    qed
  next
    case False
    with in_set m show ?thesis by (simp add: other_tables_text_entry)
  qed
qed

lemma findAIInput_label_example: "findAIInput loc_chatgpt [el_label, el_textarea] = Some 0"
  by (simp add: findAIInput_def input_selectors_def loc_chatgpt_is_chatgpt
      chatgpt_selectors_def querySelectorAll_def matches_def compound_matches_def attr_def
      visible_def el_label_def el_textarea_def el_blank_def upt_rec)

text \<open>
  C7 (as the code has it). The locator returns the first element, in the order of the
  patterns and within a pattern in document order, that matches the pattern and is
  present in the layout (\<open>offsetParent\<close> not null): an earlier pattern's visible match
  wins, and not-found is the answer exactly when no pattern has a visible match.
  Presence in the layout is the whole test. That the element is a text-entry surface
  follows from the pattern, for every pattern except ChatGPT's \<open>#prompt-textarea\<close>.
\<close>

theorem findAIInput_first_visible_match:
  "(case findAIInput l d of
      None \<Rightarrow>
        \<forall>sel\<in>set (input_selectors l). \<forall>j\<in>set (querySelectorAll d sel). \<not> visible (d ! j)
    | Some i \<Rightarrow>
        \<exists>k<length (input_selectors l).
          i \<in> set (querySelectorAll d (input_selectors l ! k)) \<and> visible (d ! i) \<and>
          (\<forall>j\<in>set (querySelectorAll d (input_selectors l ! k)). visible (d ! j) \<longrightarrow> i \<le> j) \<and>
          (\<forall>k'<k. \<forall>j\<in>set (querySelectorAll d (input_selectors l ! k')). \<not> visible (d ! j)) \<and>
          (spec_text_entry_surface (d ! i) \<or> (isChatGPTPage l \<and> k = 0)))"
proof (cases "findAIInput l d")
  case None
  then have "first_visible d (input_selectors l) = None" by (simp add: findAIInput_def)
  then have "\<forall>sel\<in>set (input_selectors l). \<forall>j\<in>set (querySelectorAll d sel). \<not> visible (d ! j)"
    by (simp only: first_visible_None)
  then show ?thesis by (simp add: None)
next
  case (Some i)
  then have "first_visible d (input_selectors l) = Some i" by (simp add: findAIInput_def)
  from first_visible_Some [OF this] obtain k where k: "k < length (input_selectors l)"
    "i \<in> set (querySelectorAll d (input_selectors l ! k))" "visible (d ! i)"
    "\<forall>j\<in>set (querySelectorAll d (input_selectors l ! k)). visible (d ! j) \<longrightarrow> i \<le> j"
    "\<forall>k'<k. \<forall>j\<in>set (querySelectorAll d (input_selectors l ! k')). \<not> visible (d ! j)"
    by blast
  from selectors_text_entry [OF k(1) k(2)]
  have "spec_text_entry_surface (d ! i) \<or> (isChatGPTPage l \<and> k = 0)" .
  with k Some show ?thesis by auto
qed

theorem findAIInput_first_visible_match_witness:
  "findAIInput loc_chatgpt [el_label, el_textarea] = Some 0 \<and>
   (\<exists>k<length (input_selectors loc_chatgpt).
      0 \<in> set (querySelectorAll [el_label, el_textarea] (input_selectors loc_chatgpt ! k)) \<and>
      visible ([el_label, el_textarea] ! 0))"
  using findAIInput_first_visible_match [of loc_chatgpt "[el_label, el_textarea]"]
    findAIInput_label_example
  by auto

text \<open>
  C7 as stated fails: on ChatGPT, a visible \<open>div\<close> with the id \<open>prompt-textarea\<close> that
  is no text-entry surface is returned, although a visible \<open>textarea\<close> follows it.
\<close>

theorem findAIInput_text_entry_counterexample:
  "findAIInput loc_chatgpt [el_label, el_textarea] = Some 0 \<and>
   \<not> spec_text_entry_surface ([el_label, el_textarea] ! 0) \<and>
   visible ([el_label, el_textarea] ! 1) \<and>
   spec_text_entry_surface ([el_label, el_textarea] ! 1)"
  using findAIInput_label_example
  by (simp add: spec_text_entry_surface_def visible_def attr_def el_label_def el_textarea_def
      el_blank_def js_def)

section \<open>Properties of the insertion cascade\<close>

lemma emit_simps [simp]:
  "trace (emit a s) = trace s @ [a]" "doc (emit a s) = doc s" "clipboard (emit a s) = clipboard s"
  by (simp_all add: emit_def)

lemma upd_el_simps [simp]:
  "trace (upd_el i f s) = trace s" "doc (upd_el i f s) = (doc s)[i := f (doc s ! i)]"
  "clipboard (upd_el i f s) = clipboard s"
  by (simp_all add: upd_el_def)

lemma setCursorToEnd_simps [simp]:
  "trace (setCursorToEnd i n s) = trace s @ [ACursor i n]"
  "doc (setCursorToEnd i n s) = (doc s)[i := place_cursor n (doc s ! i)]"
  "clipboard (setCursorToEnd i n s) = clipboard s"
  by (simp_all add: setCursorToEnd_def)

lemma dispatchEvent_simps [simp]:
  "trace (dispatchEvent en i ev s) = trace s @ [ADispatch i ev]"
  "doc (dispatchEvent en i ev s) = (doc s)[i := host en ev (doc s ! i)]"
  "clipboard (dispatchEvent en i ev s) = clipboard s"
  by (simp_all add: dispatchEvent_def)

lemma grows_refl: "grows P s s"
  by (simp add: grows_def)

lemma grows_emit: "grows P s s1 \<Longrightarrow> P a \<Longrightarrow> grows P s (emit a s1)"
  by (auto simp: grows_def)

lemma grows_upd_el: "grows P s s1 \<Longrightarrow> grows P s (upd_el i f s1)"
  by (auto simp: grows_def)

lemma grows_clipboard: "grows P s s1 \<Longrightarrow> grows P s (s1\<lparr>clipboard := c\<rparr>)"
  by (auto simp: grows_def)

lemma grows_trans: "grows P s s1 \<Longrightarrow> grows P s1 s2 \<Longrightarrow> grows P s s2"
  by (auto simp: grows_def)

lemma grows_mono: "grows P s s' \<Longrightarrow> (\<And>a. P a \<Longrightarrow> Q a) \<Longrightarrow> grows Q s s'"
  by (auto simp: grows_def list_all_iff)

lemma grows_setCursorToEnd:
  "grows P s s1 \<Longrightarrow> P (ACursor i n) \<Longrightarrow> grows P s (setCursorToEnd i n s1)"
  by (auto simp: grows_def)

lemma grows_dispatchEvent:
  "grows P s s1 \<Longrightarrow> P (ADispatch i ev) \<Longrightarrow> grows P s (dispatchEvent en i ev s1)"
  by (auto simp: grows_def)

lemmas grows_steps = grows_dispatchEvent grows_setCursorToEnd grows_emit grows_upd_el
  grows_clipboard

lemma method1_grows:
  "grows cascade_action s s1 \<Longrightarrow> grows cascade_action s (method1 en i t s1)"
  unfolding method1_def Let_def
  by (intro grows_steps) (simp_all add: cascade_action_def)

lemma method2_grows:
  "grows cascade_action s s1 \<Longrightarrow> grows cascade_action s (method2 en i t s1)"
  unfolding method2_def Let_def
  by (auto intro!: grows_steps simp: cascade_action_def)

lemma method3_grows:
  "grows cascade_action s s1 \<Longrightarrow> grows cascade_action s (snd (method3 en i t s1))"
  unfolding method3_def Let_def
  by (auto intro!: grows_steps simp: cascade_action_def split: exec.split)

lemma method4_grows:
  "grows cascade_action s s1 \<Longrightarrow> grows cascade_action s (snd (method4 i t s1))"
  unfolding method4_def Let_def
  by (auto intro!: grows_steps simp: cascade_action_def)

lemma clipboardPaste_grows:
  "grows cascade_action s s1 \<Longrightarrow> grows cascade_action s (snd (clipboardPaste en i t s1))"
  unfolding clipboardPaste_def Let_def
  by (auto intro!: grows_steps simp: cascade_action_def split: exec.split)

lemma directMethods_grows:
  "grows cascade_action s s1 \<Longrightarrow>
     grows cascade_action s (snd (snd (directMethods en i t s1)))"
  unfolding directMethods_def Let_def
  using method1_grows [of s s1 en i t] method2_grows [of s s1 en i t]
    method3_grows [of s s1 en i t] method4_grows [of s _ i t]
  by (auto split: prod.split simp: split_beta)

lemma settles_mono: "settles P s rs \<Longrightarrow> (\<And>a. P a \<Longrightarrow> Q a) \<Longrightarrow> settles Q s rs"
  unfolding settles_def list_all_iff by blast

lemma settles_now:
  "grows P s s1 \<Longrightarrow> settles P s (r, emit (ASettle Insertion r) s1)"
proof -
  assume "grows P s s1"
  then obtain xs where "trace s1 = trace s @ xs" "list_all P xs"
    by (auto simp: grows_def)
  then show ?thesis
    unfolding settles_def by (intro exI [of _ xs] exI [of _ "[]"]) simp
qed

lemma insertWithDirectMethod_settles:
  assumes "grows P s s1" and sub: "\<And>a. cascade_action a \<Longrightarrow> P a"
  shows "settles P s (insertWithDirectMethod en i t s1)"
proof -
  obtain ok3 react s4 where dm: "directMethods en i t s1 = (ok3, react, s4)"
    by (cases "directMethods en i t s1") auto
  from directMethods_grows [OF grows_refl, of s1 en i t] dm
  have "grows cascade_action s1 s4" by simp
  then have "grows cascade_action s1 (emit (ADeclare (ok3 \<or> react)) s4)"
    by (rule grows_emit) (simp add: cascade_action_def)
  then have "grows P s1 (emit (ADeclare (ok3 \<or> react)) s4)"
    by (rule grows_mono) (rule sub)
  with assms(1) have "grows P s (emit (ADeclare (ok3 \<or> react)) s4)"
    by (rule grows_trans)
  then obtain xs where xs: "trace (emit (ADeclare (ok3 \<or> react)) s4) = trace s @ xs"
    "list_all P xs"
    by (auto simp: grows_def)
  define s5 where "s5 = emit (ASettle Insertion Resolved) (emit (ADeclare (ok3 \<or> react)) s4)"
  define s6 where "s6 = (if react then
                  setCursorToEnd i (length t)
                    (upd_el i (reactHandler en) (emit (AReact i) (emit (ADelay 0) s5)))
                else s5)"
  have "grows cascade_action s5 s6"
    unfolding s6_def by (auto intro!: grows_steps grows_refl simp: cascade_action_def)
  then have "grows cascade_action s5 (setCursorToEnd i (length t) (emit (ADelay 100) s6))"
    by (intro grows_steps) (simp_all add: cascade_action_def)
  then obtain ys where ys:
    "trace (setCursorToEnd i (length t) (emit (ADelay 100) s6)) = trace s5 @ ys"
    "list_all cascade_action ys"
    by (auto simp: grows_def)
  have res: "insertWithDirectMethod en i t s1 =
      (Resolved, setCursorToEnd i (length t) (emit (ADelay 100) s6))"
    by (simp add: insertWithDirectMethod_def dm s6_def s5_def Let_def)
  have "trace s5 = trace s @ xs @ [ASettle Insertion Resolved]"
    using xs(1) by (simp add: s5_def)
  with ys xs(2) show ?thesis
    unfolding settles_def res by (intro exI [of _ xs] exI [of _ ys]) simp
qed

lemma performInsertion_located_settles:
  assumes "findAIInput (location en) (doc s) = Some i" and "\<not> focus_raises en"
  shows "settles strategy_action s (performInsertion en t s)"
proof -
  define s0 where "s0 = emit (AFocus i) (emit (AEnter PerformInsertion) s)"
  obtain ok1 s1 where cp: "clipboardPaste en i t s0 = (ok1, s1)"
    by (cases "clipboardPaste en i t s0") auto
  have "grows strategy_action s s0"
    unfolding s0_def
    by (intro grows_steps grows_refl) (simp_all add: strategy_action_def cascade_action_def)
  moreover have "grows strategy_action s0 s1"
    using clipboardPaste_grows [OF grows_refl, of s0 en i t] cp
    by (auto intro: grows_mono simp: strategy_action_def)
  ultimately have g1: "grows strategy_action s s1" by (rule grows_trans)
  show ?thesis
  proof (cases ok1)
    case True
    have "grows strategy_action s
       (dispatchEvent en i ChangeEvent
          (dispatchEvent en i InputEvent (setCursorToEnd i (length t) s1)))"
      using g1 by (intro grows_steps) (simp_all add: strategy_action_def cascade_action_def)
    from settles_now [OF this, of Resolved] show ?thesis
      using assms cp True by (simp add: performInsertion_def s0_def Let_def)
  next
    case False
    have "settles strategy_action s (insertWithDirectMethod en i t s1)"
      using g1 by (rule insertWithDirectMethod_settles) (simp add: strategy_action_def)
    then show ?thesis
      using assms cp False by (simp add: performInsertion_def s0_def Let_def)
  qed
qed

lemma performInsertion_settles:
  "settles insertion_phase s (performInsertion en t s)"
proof (cases "findAIInput (location en) (doc s)")
  case None
  have "grows insertion_phase s
      (emit (ANotify MsgInputNotFound SevError 5000) (emit (AEnter PerformInsertion) s))"
    by (intro grows_steps grows_refl)
      (simp_all add: insertion_phase_def strategy_action_def notification_def)
  from settles_now [OF this, of "Rejected InputNotFound"] show ?thesis
    using None by (simp add: performInsertion_def Let_def)
next
  case (Some i)
  show ?thesis
  proof (cases "focus_raises en")
    case False
    from performInsertion_located_settles [OF Some False, of t] show ?thesis
      by (rule settles_mono) (simp add: insertion_phase_def)
  next
    case True
    define s0 where "s0 = emit (AEnter PerformInsertion) s"
    have g0: "grows insertion_phase s s0"
      unfolding s0_def
      by (intro grows_steps grows_refl) (simp add: insertion_phase_def strategy_action_def)
    have g1: "grows insertion_phase s
        (emit (ANotify MsgCopiedPasteManually SevInfo 5000)
           (emit (AWriteText t) (s0\<lparr>clipboard := t\<rparr>)))"
      using g0 by (intro grows_steps)
        (simp_all add: insertion_phase_def strategy_action_def notification_def
          cascade_action_def)
    have g2: "grows insertion_phase s (emit (ANotify MsgInsertAndCopyFailed SevError 6000) s0)"
      using g0 by (intro grows_steps) (simp_all add: insertion_phase_def notification_def)
    have "settles insertion_phase s (insertionFallback en t s0)"
      unfolding insertionFallback_def
      using settles_now [OF g1, of Resolved] settles_now [OF g2, of "Rejected Raised"]
        settles_now [OF g0, of "Rejected Raised"]
      by simp
    then show ?thesis
      using Some True by (simp add: performInsertion_def s0_def Let_def)
  qed
qed

lemma findAIInput_textbox_example: "findAIInput loc_chatgpt [el_textbox] = Some 0"
  by (simp add: findAIInput_def input_selectors_def loc_chatgpt_is_chatgpt
      chatgpt_selectors_def querySelectorAll_def matches_def compound_matches_def attr_def
      visible_def el_textbox_def el_blank_def placeholder_has_def editable_def textbox_role_def)

lemma findAIInput_textarea_example: "findAIInput loc_chatgpt [el_textarea] = Some 0"
  by (simp add: findAIInput_def input_selectors_def loc_chatgpt_is_chatgpt
      chatgpt_selectors_def querySelectorAll_def matches_def compound_matches_def attr_def
      visible_def el_textarea_def el_blank_def placeholder_has_def)

lemma env_plain_simps [simp]:
  "location (env_plain l) = l" "\<not> clipboard_api (env_plain l)" "\<not> focus_raises (env_plain l)"
  "execInsertText (env_plain l) t e = Returned False e" "host (env_plain l) ev e = e"
  "reactHandler (env_plain l) e = e"
  by (simp_all add: env_plain_def)

lemma env_denied_simps [simp]:
  "location (env_denied l) = l" "clipboard_api (env_denied l)" "\<not> writeText_ok (env_denied l)"
  "\<not> focus_raises (env_denied l)" "execInsertText (env_denied l) t e = Returned False e"
  "host (env_denied l) ev e = e" "reactHandler (env_denied l) e = e"
  by (simp_all add: env_denied_def env_plain_def)

lemma page_of_simps [simp]:
  "doc (page_of d) = d" "clipboard (page_of d) = []" "trace (page_of d) = []"
  by (simp_all add: page_of_def)

lemma insertWithDirectMethod_outcome [simp]:
  "fst (insertWithDirectMethod en i t s) = Resolved"
  by (simp add: insertWithDirectMethod_def Let_def split_beta)

lemma performInsertion_outcome:
  "fst (performInsertion en t s) =
     (case findAIInput (location en) (doc s) of
        None \<Rightarrow> Rejected InputNotFound
      | Some i \<Rightarrow>
          if focus_raises en \<and> \<not> (clipboard_api en \<and> writeText_ok en) then Rejected Raised
          else Resolved)"
  by (simp add: performInsertion_def insertionFallback_def Let_def split_beta
      split: option.split)

lemma el_textbox_simps [simp]:
  "tag el_textbox = js ''div''" "\<not> isContentEditable el_textbox"
  "reactOnChange el_textbox = None" "val el_textbox = None"
  by (simp_all add: el_textbox_def el_blank_def)

lemma js_div_not_textarea [simp]: "js ''div'' \<noteq> js ''textarea''" "js ''div'' \<noteq> js ''input''"
  by (simp_all add: js_def)

lemma place_cursor_textbox [simp]: "place_cursor n el_textbox = el_textbox"
  by (simp add: place_cursor_def)

lemma all_fail_run:
  "fst (performInsertion (env_plain loc_chatgpt) (js ''hello'') (page_of [el_textbox])) = Resolved \<and>
   trace (snd (performInsertion (env_plain loc_chatgpt) (js ''hello'') (page_of [el_textbox]))) =
     [AEnter PerformInsertion, AFocus 0, ASelectAll 0,
      AExecCommand InsertText (Some False), ACursor 0 5, AReactLookup 0,
      ADeclare False, ASettle Insertion Resolved, ADelay 100, ACursor 0 5] \<and>
   clipboard (snd (performInsertion (env_plain loc_chatgpt) (js ''hello'') (page_of [el_textbox]))) = [] \<and>
   doc (snd (performInsertion (env_plain loc_chatgpt) (js ''hello'') (page_of [el_textbox]))) = [el_textbox]"
  by (simp add: performInsertion_def findAIInput_textbox_example clipboardPaste_def
      insertWithDirectMethod_def directMethods_def method3_def method4_def assignable_def
      Let_def js_def [of "''hello''"])

lemma denied_fail_run:
  "fst (performInsertion (env_denied loc_chatgpt) (js ''hello'') (page_of [el_textbox])) = Resolved \<and>
   trace (snd (performInsertion (env_denied loc_chatgpt) (js ''hello'') (page_of [el_textbox]))) =
     [AEnter PerformInsertion, AFocus 0, ASelectAll 0,
      AExecCommand InsertText (Some False), ACursor 0 5, AReactLookup 0,
      ADeclare False, ASettle Insertion Resolved, ADelay 100, ACursor 0 5] \<and>
   clipboard (snd (performInsertion (env_denied loc_chatgpt) (js ''hello'') (page_of [el_textbox]))) = [] \<and>
   doc (snd (performInsertion (env_denied loc_chatgpt) (js ''hello'') (page_of [el_textbox]))) = [el_textbox]"
  by (simp add: performInsertion_def findAIInput_textbox_example clipboardPaste_def
      insertWithDirectMethod_def directMethods_def method3_def method4_def assignable_def
      Let_def js_def [of "''hello''"])

lemma method1_clipboard [simp]: "clipboard (method1 en i t s) = clipboard s"
  by (simp add: method1_def Let_def)

lemma method2_clipboard [simp]: "clipboard (method2 en i t s) = clipboard s"
  by (simp add: method2_def Let_def)

lemma method3_clipboard [simp]: "clipboard (snd (method3 en i t s)) = clipboard s"
  by (simp add: method3_def Let_def split: exec.split)

lemma method4_clipboard [simp]: "clipboard (snd (method4 i t s)) = clipboard s"
  by (simp add: method4_def Let_def)

lemma directMethods_clipboard [simp]:
  "clipboard (snd (snd (directMethods en i t s))) = clipboard s"
  by (simp add: directMethods_def Let_def split_beta)

lemma insertWithDirectMethod_clipboard [simp]:
  "clipboard (snd (insertWithDirectMethod en i t s)) = clipboard s"
  by (simp add: insertWithDirectMethod_def Let_def split_beta)

lemma clipboardPaste_clipboard [simp]:
  "clipboard (snd (clipboardPaste en i t s)) =
     (if clipboard_api en \<and> writeText_ok en then t else clipboard s)"
  by (simp add: clipboardPaste_def Let_def split: exec.split)

lemma performInsertion_clipboard:
  "clipboard (snd (performInsertion en t s)) =
     (case findAIInput (location en) (doc s) of
        None \<Rightarrow> clipboard s
      | Some i \<Rightarrow> if clipboard_api en \<and> writeText_ok en then t else clipboard s)"
  by (simp add: performInsertion_def insertionFallback_def Let_def split_beta
      split: option.split)

lemma new_actions_append [simp]:
  "trace s' = trace s @ xs \<Longrightarrow> new_actions s s' = xs"
  by (simp add: new_actions_def)

lemma strategy_action_quiet: "strategy_action a \<Longrightarrow> \<not> notification a"
  by (auto simp: strategy_action_def cascade_action_def notification_def split: action.splits)

lemma cascade_action_quiet: "cascade_action a \<Longrightarrow> \<not> notification a"
  by (auto simp: cascade_action_def notification_def split: action.splits)

lemma performInsertion_not_found_actions:
  "findAIInput (location en) (doc s) = None \<Longrightarrow>
     new_actions s (snd (performInsertion en t s)) =
       [AEnter PerformInsertion, ANotify MsgInputNotFound SevError 5000,
        ASettle Insertion (Rejected InputNotFound)]"
  by (simp add: performInsertion_def Let_def new_actions_def)

lemma performInsertion_raised_actions:
  "findAIInput (location en) (doc s) = Some i \<Longrightarrow> focus_raises en \<Longrightarrow>
     new_actions s (snd (performInsertion en t s)) =
       (if clipboard_api en then
          (if writeText_ok en
           then [AEnter PerformInsertion, AWriteText t,
                 ANotify MsgCopiedPasteManually SevInfo 5000, ASettle Insertion Resolved]
           else [AEnter PerformInsertion, ANotify MsgInsertAndCopyFailed SevError 6000,
                 ASettle Insertion (Rejected Raised)])
        else [AEnter PerformInsertion, ASettle Insertion (Rejected Raised)])"
  by (simp add: performInsertion_def insertionFallback_def Let_def new_actions_def)

lemma performInsertion_located_quiet:
  assumes "findAIInput (location en) (doc s) = Some i" and "\<not> focus_raises en"
  shows "\<not> list_ex notification (new_actions s (snd (performInsertion en t s)))"
proof -
  from performInsertion_located_settles [OF assms, of t]
  obtain xs ys where tr: "trace (snd (performInsertion en t s)) =
      trace s @ xs @ ASettle Insertion (fst (performInsertion en t s)) # ys"
    and xs: "list_all strategy_action xs" and ys: "list_all cascade_action ys"
    unfolding settles_def by blast
  from xs have "\<not> list_ex notification xs"
    by (auto simp: list_all_iff list_ex_iff dest: strategy_action_quiet)
  moreover from ys have "\<not> list_ex notification ys"
    by (auto simp: list_all_iff list_ex_iff dest: cascade_action_quiet)
  ultimately show ?thesis
    using new_actions_append [OF tr] by (simp add: notification_def)
qed

text \<open>
  C2 (as the code has it). When every insertion strategy has failed, which the closing
  log line of the cascade records as \<open>ADeclare False\<close>, the promise is resolved and no
  toast is shown. The text is on the clipboard exactly when the clipboard write of the
  first strategy was made and fulfilled; nothing is copied after the failure.
\<close>

theorem all_strategies_fail_silently:
  assumes "ADeclare False \<in> set (new_actions s (snd (performInsertion en t s)))"
  shows "fst (performInsertion en t s) = Resolved \<and>
    \<not> list_ex notification (new_actions s (snd (performInsertion en t s))) \<and>
    clipboard (snd (performInsertion en t s)) =
      (if clipboard_api en \<and> writeText_ok en then t else clipboard s)"
proof (cases "findAIInput (location en) (doc s)")
  case None
  with assms show ?thesis by (simp add: performInsertion_not_found_actions)
next
  case (Some i)
  show ?thesis
  proof (cases "focus_raises en")
    case True
    with assms Some show ?thesis
      by (simp add: performInsertion_raised_actions split: if_splits)
  next
    case False
    with Some performInsertion_located_quiet [OF Some False, of t] show ?thesis
      by (simp add: performInsertion_outcome performInsertion_clipboard)
  qed
qed

theorem all_strategies_fail_silently_witness:
  "ADeclare False \<in>
     set (new_actions (page_of [el_textbox])
            (snd (performInsertion (env_denied loc_chatgpt) (js ''hello'') (page_of [el_textbox])))) \<and>
   fst (performInsertion (env_denied loc_chatgpt) (js ''hello'') (page_of [el_textbox])) = Resolved \<and>
   \<not> list_ex notification
       (new_actions (page_of [el_textbox])
          (snd (performInsertion (env_denied loc_chatgpt) (js ''hello'') (page_of [el_textbox])))) \<and>
   clipboard (snd (performInsertion (env_denied loc_chatgpt) (js ''hello'') (page_of [el_textbox]))) = []"
proof -
  have failed: "ADeclare False \<in>
     set (new_actions (page_of [el_textbox])
            (snd (performInsertion (env_denied loc_chatgpt) (js ''hello'') (page_of [el_textbox]))))"
    using denied_fail_run by (simp add: new_actions_def)
  from all_strategies_fail_silently [OF failed] failed show ?thesis by simp
qed

text \<open>
  C2 as stated fails: on ChatGPT with a visible textbox that is not editable, a
  clipboard write that is refused and an \<open>insertText\<close> command that returns false, all
  strategies fail; the run ends with the log line and the resolution, shows no toast,
  and the clipboard does not hold the text.
\<close>

theorem clipboard_fallback_counterexample:
  "findAIInput loc_chatgpt (doc (page_of [el_textbox])) = Some 0 \<and>
   fst (performInsertion (env_denied loc_chatgpt) (js ''hello'') (page_of [el_textbox])) = Resolved \<and>
   trace (snd (performInsertion (env_denied loc_chatgpt) (js ''hello'') (page_of [el_textbox]))) =
     [AEnter PerformInsertion, AFocus 0, ASelectAll 0,
      AExecCommand InsertText (Some False), ACursor 0 5, AReactLookup 0,
      ADeclare False, ASettle Insertion Resolved, ADelay 100, ACursor 0 5] \<and>
   clipboard (snd (performInsertion (env_denied loc_chatgpt) (js ''hello'') (page_of [el_textbox]))) \<noteq> js ''hello''"
  using denied_fail_run findAIInput_textbox_example by (simp add: js_def)

lemma findAIInput_in_range: "findAIInput l d = Some i \<Longrightarrow> i < length d"
proof -
  assume "findAIInput l d = Some i"
  then have "first_visible d (input_selectors l) = Some i" by (simp add: findAIInput_def)
  from first_visible_Some [OF this] obtain k where
    "i \<in> set (querySelectorAll d (input_selectors l ! k))" by blast
  then show ?thesis by (simp add: querySelectorAll_def)
qed

lemma js_tag_distinct [simp]: "js ''textarea'' \<noteq> js ''input''" "js ''input'' \<noteq> js ''textarea''"
  by simp_all

lemma clipboardPaste_length [simp]:
  "length (doc (snd (clipboardPaste en i t s))) = length (doc s)"
  by (simp add: clipboardPaste_def Let_def split: exec.split)

lemma place_cursor_react [simp]: "reactOnChange (place_cursor n e) = reactOnChange e"
  by (simp add: place_cursor_def)

lemma assign_content_react [simp]: "reactOnChange (assign_content t e) = reactOnChange e"
  by (simp add: assign_content_def set_value_def)

section \<open>Properties of the send cascade\<close>

lemma querySelector_Some:
  "querySelector d sel = Some b \<Longrightarrow> b \<in> set (querySelectorAll d sel)"
  by (auto simp: querySelector_def split: list.splits)

lemma find_send_button_Some:
  "find_send_button d sels = Some b \<Longrightarrow>
     \<exists>sel\<in>set sels. b \<in> set (querySelectorAll d sel) \<and> visible (d ! b)"
proof (induction sels)
  case Nil
  then show ?case by simp
next
  case (Cons sel sels)
  show ?case
  proof (cases "querySelector d sel")
    case None
    with Cons show ?thesis by simp
  next
    case (Some b')
    show ?thesis
    proof (cases "visible (d ! b')")
      case True
      with Some Cons.prems have "b' = b" by simp
      with Some True querySelector_Some [OF Some] show ?thesis by simp
    next
      case False
      with Some Cons show ?thesis by simp
    qed
  qed
qed

lemma sendViaKeyboard_run:
  "\<not> focus_raises en \<Longrightarrow>
     fst (sendViaKeyboard en i s) = Resolved \<and>
     trace (snd (sendViaKeyboard en i s)) =
       trace s @ [AFocus i, ADispatch i EnterKeydown, ADispatch i EnterKeypress, ADelay 10,
                  ADispatch i EnterKeyup, ADispatch i InputEvent, ASettle Sending Resolved]"
  by (simp add: sendViaKeyboard_def Let_def)

text \<open>
  C9. With a located target: on Claude and Doubao, and elsewhere when no match of the
  site's send selectors is both visible and enabled, \<open>sendPrompt\<close> does exactly this:
  focus, \<open>keydown\<close> and \<open>keypress\<close> of Enter, 10 ms later \<open>keyup\<close>, then an \<open>input\<close>
  event on the target, and it resolves. No button is clicked.
\<close>

theorem send_falls_back_to_keyboard:
  assumes loc: "findAIInput (location en) (doc s) = Some i" and nr: "\<not> focus_raises en"
    and kb: "isClaudePage (location en) \<or> isDoubaoPage (location en) \<or>
       (\<forall>sel\<in>set (send_selectors (location en)).
          \<forall>b\<in>set (querySelectorAll (doc s) sel). visible (doc s ! b) \<longrightarrow> disabled (doc s ! b))"
  shows "fst (sendPrompt en s) = Resolved \<and>
    new_actions s (snd (sendPrompt en s)) =
      [AEnter SendPrompt, AFocus i, ADispatch i EnterKeydown, ADispatch i EnterKeypress,
       ADelay 10, ADispatch i EnterKeyup, ADispatch i InputEvent, ASettle Sending Resolved]"
proof -
  define s0 where "s0 = emit (AEnter SendPrompt) s"
  have "sendPrompt en s = sendViaKeyboard en i s0"
  proof (cases "isClaudePage (location en) \<or> isDoubaoPage (location en)")
    case True
    with loc show ?thesis by (simp add: sendPrompt_def s0_def Let_def)
  next
    case False
    with kb have none: "\<forall>sel\<in>set (send_selectors (location en)).
        \<forall>b\<in>set (querySelectorAll (doc s) sel). visible (doc s ! b) \<longrightarrow> disabled (doc s ! b)"
      by blast
    show ?thesis
    proof (cases "find_send_button (doc s) (send_selectors (location en))")
      case None
      with loc False show ?thesis by (simp add: sendPrompt_def s0_def Let_def)
    next
      case (Some b)
      from find_send_button_Some [OF Some] none have "disabled (doc s ! b)" by blast
      with loc False Some show ?thesis by (simp add: sendPrompt_def s0_def Let_def)
    qed
  qed
  with sendViaKeyboard_run [OF nr, of i s0] show ?thesis
    by (simp add: s0_def new_actions_def)
qed

section \<open>Properties of the entry point\<close>

lemma showVariableInputModal_raises:
  "showVariableInputModal en v u = Inl err \<Longrightarrow>
     (err = Raised \<and> inputs_of en v = None) \<or>
     (err = UserCancelled \<and> inputs_of en v \<noteq> None \<and> (u = PressCancel \<or> u = ClickOverlay))"
  by (cases u) (auto simp: showVariableInputModal_def split: option.splits)

lemma showVariableInputModal_built:
  "inputs_of en v \<noteq> None \<Longrightarrow>
     (case showVariableInputModal en v u of
        Inl err \<Rightarrow> err = UserCancelled \<and> (u = PressCancel \<or> u = ClickOverlay)
      | Inr filled \<Rightarrow> u \<noteq> PressCancel \<and> u \<noteq> ClickOverlay)"
  by (cases u) (auto simp: showVariableInputModal_def split: option.splits)

text \<open>
  C10 (as the code has it). The outcome of \<open>insertPromptText\<close> does not depend on
  whether a strategy took. It is a rejection in three cases only: making the fields of
  the variable modal raised, which \<open>insertPromptText\<close> throws again without any
  fallback; no input element is found; or a DOM call of \<open>_performInsertion\<close> raised and
  the clipboard fallback is unavailable or fails. In every other case the promise is
  resolved, as it is after a cancelled modal: with a located target and no exception
  the promise is resolved whatever the strategies did.
\<close>

theorem insertion_rejects_only_when:
  "fst (insertPromptText en u t s) =
     (if template_variables t \<noteq> [] \<and> inputs_of en (template_variables t) = None
      then Rejected Raised
      else if template_variables t \<noteq> [] \<and> (u = PressCancel \<or> u = ClickOverlay) then Resolved
      else (case findAIInput (location en) (doc s) of
              None \<Rightarrow> Rejected InputNotFound
            | Some i \<Rightarrow>
                if focus_raises en \<and> \<not> (clipboard_api en \<and> writeText_ok en)
                then Rejected Raised else Resolved)) \<and>
   ((\<exists>i. findAIInput (location en) (doc s) = Some i) \<and> \<not> focus_raises en \<and>
    (template_variables t = [] \<or> inputs_of en (template_variables t) \<noteq> None) \<longrightarrow>
      fst (insertPromptText en u t s) = Resolved)"
proof (cases "template_variables t = []")
  case True
  then show ?thesis
    by (auto simp: insertPromptText_def performInsertion_outcome split: option.splits)
next
  case False
  show ?thesis
  proof (cases "inputs_of en (template_variables t)")
    case None
    with False show ?thesis
      by (simp add: insertPromptText_def showVariableInputModal_def)
  next
    case (Some keys)
    with False show ?thesis
      by (cases u)
        (auto simp: insertPromptText_def showVariableInputModal_def performInsertion_outcome
          split: option.splits)
  qed
qed

section \<open>Properties of the resolver\<close>

lemma foldl_set_add_distinct: "distinct acc \<Longrightarrow> distinct (foldl set_add acc xs)"
  by (induction xs arbitrary: acc) (auto simp: set_add_def)

lemma foldl_set_add_set: "set (foldl set_add acc xs) = set acc \<union> set xs"
  by (induction xs arbitrary: acc) (auto simp: set_add_def)

lemma template_variables_example:
  "template_variables (js ''{a}-{a}-{b}'') = [js ''a'', js ''b'']"
  by (simp add: template_variables_def js_def name_unit_def trim_nonempty_def js_space_def
      set_add_def)

lemma entries_example:
  "entries [(js ''a'', x), (js ''b'', y)] = [(js ''a'', x), (js ''b'', y)]"
  by (simp add: entries_def own_keys_def is_array_index_def js_def)

lemma inputs_of_example: "inputs_of en [js ''a'', js ''b''] = Some [js ''a'', js ''b'']"
  by (simp add: inputs_of_def)

lemma substitute_example:
  "substitute (js ''{a}-{a}-{b}'') [(js ''a'', js ''1''), (js ''b'', js ''2'')] = js ''1-1-2''"
  by (simp add: substitute_def entries_example replace_variable_def) (simp add: js_def)

text \<open>
  C3. The variables of a template are distinct, each name the pattern finds being
  among them. The template \<open>{a}-{a}-{b}\<close> has the variables \<open>a\<close> and \<open>b\<close>, each once
  and in this order; the modal has one field for each; with \<open>1\<close> typed for \<open>a\<close> and
  \<open>2\<close> for \<open>b\<close> the text handed to the insertion is \<open>1-1-2\<close>.
\<close>

theorem resolve_example:
  assumes "typed (js ''a'') = js ''1''" and "typed (js ''b'') = js ''2''"
  shows "distinct (template_variables t) \<and>
    set (template_variables t) = {n \<in> set (regex_names t). trim_nonempty n} \<and>
    template_variables (js ''{a}-{a}-{b}'') = [js ''a'', js ''b''] \<and>
    showVariableInputModal en (template_variables (js ''{a}-{a}-{b}'')) (PressSubmit typed) =
      Inr [(js ''a'', js ''1''), (js ''b'', js ''2'')] \<and>
    substitute (js ''{a}-{a}-{b}'') [(js ''a'', js ''1''), (js ''b'', js ''2'')] = js ''1-1-2'' \<and>
    insertPromptText en (PressSubmit typed) (js ''{a}-{a}-{b}'') s =
      performInsertion en (js ''1-1-2'')
        (emit AModalClose (emit (AModalOpen [js ''a'', js ''b'']) s))"
proof -
  have modal: "showVariableInputModal en [js ''a'', js ''b''] (PressSubmit typed) =
      Inr [(js ''a'', js ''1''), (js ''b'', js ''2'')]"
    using assms by (simp add: showVariableInputModal_def inputs_of_example entries_example)
  have general: "distinct (template_variables t)"
    "set (template_variables t) = {n \<in> set (regex_names t). trim_nonempty n}"
    by (auto simp: template_variables_def foldl_set_add_distinct foldl_set_add_set)
  show ?thesis
    using general
    by (simp add: template_variables_example modal substitute_example insertPromptText_def)
qed

section \<open>The properties on concrete pages\<close>

lemma ancestors_no_parent: "parent (d ! i) = None \<Longrightarrow> ancestors d i = []"
  by (simp add: ancestors.simps)

lemma js_tag_facts [simp]:
  "js ''textarea'' \<noteq> js ''button''" "js ''textarea'' \<noteq> js ''div''"
  "js ''button'' \<noteq> js ''textarea''" "js ''button'' \<noteq> js ''div''"
  "js ''div'' \<noteq> js ''button''"
  by (simp_all add: js_def)

lemma findAIInput_single_textarea:
  "tag e = js ''textarea'' \<Longrightarrow> attrs e = [] \<Longrightarrow> visible e \<Longrightarrow>
     findAIInput loc_chatgpt [e] = Some 0"
  by (simp add: findAIInput_def input_selectors_def loc_chatgpt_is_chatgpt
      chatgpt_selectors_def querySelectorAll_def matches_def compound_matches_def attr_def
      placeholder_has_def editable_def textbox_role_def)

lemma find_send_button_single_textarea:
  "tag e = js ''textarea'' \<Longrightarrow> find_send_button [e] chatgpt_send = None"
  by (simp add: chatgpt_send_def send_button_def submit_button_def querySelector_def
      querySelectorAll_def matches_def compound_matches_def)

lemma send_selectors_chatgpt: "send_selectors loc_chatgpt = chatgpt_send"
  by (simp add: send_selectors_def loc_chatgpt_is_chatgpt)

lemma loc_chatgpt_not_keyboard_first:
  "\<not> isClaudePage loc_chatgpt" "\<not> isDoubaoPage loc_chatgpt"
  by (simp_all add: isClaudePage_def isDoubaoPage_def loc_chatgpt_def js_def)

lemma normalize_newlines_length: "length (normalize_newlines t) \<le> length t"
  by (induction t rule: normalize_newlines.induct) auto

lemma normalize_newlines_plain: "13 \<notin> set t \<Longrightarrow> normalize_newlines t = t"
  by (induction t rule: normalize_newlines.induct) auto

lemma place_cursor_set_value:
  "tag e = js ''textarea'' \<Longrightarrow>
     place_cursor (length t) (set_value t e) =
       e\<lparr>val := Some (normalize_newlines t), selectionStart := length (normalize_newlines t),
         selectionEnd := length (normalize_newlines t)\<rparr>"
proof (cases "val e = Some (normalize_newlines t)")
  case True
  assume "tag e = js ''textarea''"
  with True have "place_cursor (length t) (set_value t e) =
      e\<lparr>selectionStart := length (normalize_newlines t),
        selectionEnd := length (normalize_newlines t)\<rparr>"
    by (simp add: place_cursor_def set_value_def min_absorb2 normalize_newlines_length)
  also from True have "\<dots> = e\<lparr>val := Some (normalize_newlines t),
      selectionStart := length (normalize_newlines t),
      selectionEnd := length (normalize_newlines t)\<rparr>"
    by (cases e) simp
  finally show ?thesis .
next
  case False
  assume "tag e = js ''textarea''"
  with False show ?thesis
    by (simp add: place_cursor_def set_value_def min_absorb2 normalize_newlines_length)
qed

lemma textarea_plain_run:
  assumes "doc s = [e]" and "tag e = js ''textarea''" and "attrs e = []" and "visible e"
  shows "fst (performInsertion (env_plain loc_chatgpt) t s) = Resolved"
    and "trace (snd (performInsertion (env_plain loc_chatgpt) t s)) =
      trace s @ [AEnter PerformInsertion, AFocus 0, AAssign 0 t, ACursor 0 (length t),
        ADispatch 0 InputEvent, ADispatch 0 ChangeEvent, ADispatch 0 SpaceKeydown,
        ADeclare True, ASettle Insertion Resolved, ADelay 100, ACursor 0 (length t)]"
    and "doc (snd (performInsertion (env_plain loc_chatgpt) t s)) =
      [e\<lparr>val := Some (normalize_newlines t), selectionStart := length (normalize_newlines t),
         selectionEnd := length (normalize_newlines t)\<rparr>]"
    and "clipboard (snd (performInsertion (env_plain loc_chatgpt) t s)) = clipboard s"
  using assms findAIInput_single_textarea [of e]
  by (simp_all add: performInsertion_def clipboardPaste_def insertWithDirectMethod_def
      directMethods_def method1_def Let_def place_cursor_set_value)
    (simp add: place_cursor_def min_absorb2 normalize_newlines_length)

lemma plain_112: "normalize_newlines (js ''1-1-2'') = js ''1-1-2''"
  by (rule normalize_newlines_plain) (simp add: js_def)

lemma el_textarea_simps [simp]:
  "tag el_textarea = js ''textarea''" "attrs el_textarea = []" "visible el_textarea"
  "textContent el_textarea = []" "val el_textarea = Some []"
  by (simp_all add: el_textarea_def el_blank_def visible_def)

lemma typed_12_simps [simp]: "typed_12 (js ''a'') = js ''1''" "typed_12 (js ''b'') = js ''2''"
  by (simp_all add: typed_12_def js_def)

theorem resolve_example_witness:
  "template_variables (js ''{a}-{a}-{b}'') = [js ''a'', js ''b''] \<and>
   showVariableInputModal (env_plain loc_chatgpt) (template_variables (js ''{a}-{a}-{b}''))
     (PressSubmit typed_12) =
     Inr [(js ''a'', js ''1''), (js ''b'', js ''2'')] \<and>
   doc (snd (insertPromptText (env_plain loc_chatgpt) (PressSubmit typed_12)
               (js ''{a}-{a}-{b}'') (page_of [el_textarea]))) =
     [el_textarea\<lparr>val := Some (js ''1-1-2''), selectionStart := 5, selectionEnd := 5\<rparr>]"
proof -
  note r = resolve_example [where typed = typed_12 and en = "env_plain loc_chatgpt"
      and s = "page_of [el_textarea]" and t = "js ''{a}-{a}-{b}''", OF typed_12_simps]
  have len: "length (js ''1-1-2'') = 5" by (simp add: js_def)
  have "doc (snd (performInsertion (env_plain loc_chatgpt) (js ''1-1-2'')
          (emit AModalClose (emit (AModalOpen [js ''a'', js ''b'']) (page_of [el_textarea]))))) =
      [el_textarea\<lparr>val := Some (js ''1-1-2''), selectionStart := length (js ''1-1-2''),
         selectionEnd := length (js ''1-1-2'')\<rparr>]"
    using textarea_plain_run(3) [where e = el_textarea and t = "js ''1-1-2''" and
        s = "emit AModalClose (emit (AModalOpen [js ''a'', js ''b'']) (page_of [el_textarea]))"]
    by (simp add: plain_112)
  with r len show ?thesis by (elim conjE) simp
qed

lemma el_react_simps [simp]:
  "tag el_react = js ''div''" "\<not> isContentEditable el_react"
  "reactOnChange el_react = Some True" "val el_react = None"
  by (simp_all add: el_react_def el_textbox_def el_blank_def)

lemma findAIInput_react_example: "findAIInput loc_chatgpt [el_react] = Some 0"
  by (simp add: findAIInput_def input_selectors_def loc_chatgpt_is_chatgpt
      chatgpt_selectors_def querySelectorAll_def matches_def compound_matches_def attr_def
      visible_def el_react_def el_textbox_def el_blank_def placeholder_has_def editable_def
      textbox_role_def)

lemma findAIInput_two_example: "findAIInput loc_chatgpt [el_textarea, el_send_off] = Some 0"
  by (simp add: findAIInput_def input_selectors_def loc_chatgpt_is_chatgpt
      chatgpt_selectors_def querySelectorAll_def matches_def compound_matches_def attr_def
      visible_def el_textarea_def el_send_off_def el_blank_def placeholder_has_def
      editable_def textbox_role_def upt_rec ancestors_no_parent)

lemma send_button_off_example:
  "\<forall>sel\<in>set (send_selectors loc_chatgpt).
     \<forall>b\<in>set (querySelectorAll [el_textarea, el_send_off] sel).
        visible ([el_textarea, el_send_off] ! b) \<longrightarrow> disabled ([el_textarea, el_send_off] ! b)"
  by (simp add: send_selectors_chatgpt chatgpt_send_def send_button_def submit_button_def
      querySelectorAll_def matches_def compound_matches_def attr_def el_textarea_def
      el_send_off_def el_blank_def upt_rec ancestors_no_parent)

lemma querySelectorAll_send_off_example:
  "querySelectorAll [el_textarea, el_send_off]
     [[Tag (js ''button''), AttrEq (js ''data-testid'') (js ''send-button'')]] = [1]"
  by (simp add: querySelectorAll_def matches_def compound_matches_def attr_def el_textarea_def
      el_send_off_def el_blank_def upt_rec ancestors_no_parent)

theorem send_falls_back_to_keyboard_witness:
  "querySelectorAll [el_textarea, el_send_off]
     [[Tag (js ''button''), AttrEq (js ''data-testid'') (js ''send-button'')]] = [1] \<and>
   fst (sendPrompt (env_plain loc_chatgpt) (page_of [el_textarea, el_send_off])) = Resolved \<and>
   new_actions (page_of [el_textarea, el_send_off])
     (snd (sendPrompt (env_plain loc_chatgpt) (page_of [el_textarea, el_send_off]))) =
     [AEnter SendPrompt, AFocus 0, ADispatch 0 EnterKeydown, ADispatch 0 EnterKeypress,
      ADelay 10, ADispatch 0 EnterKeyup, ADispatch 0 InputEvent, ASettle Sending Resolved]"
proof -
  have h1: "findAIInput (location (env_plain loc_chatgpt))
      (doc (page_of [el_textarea, el_send_off])) = Some 0"
    by (simp add: findAIInput_two_example)
  have h2: "\<not> focus_raises (env_plain loc_chatgpt)" by simp
  have h3: "isClaudePage (location (env_plain loc_chatgpt)) \<or>
      isDoubaoPage (location (env_plain loc_chatgpt)) \<or>
      (\<forall>sel\<in>set (send_selectors (location (env_plain loc_chatgpt))).
         \<forall>b\<in>set (querySelectorAll (doc (page_of [el_textarea, el_send_off])) sel).
            visible (doc (page_of [el_textarea, el_send_off]) ! b) \<longrightarrow>
            disabled (doc (page_of [el_textarea, el_send_off]) ! b))"
    using send_button_off_example by simp
  from send_falls_back_to_keyboard [OF h1 h2 h3] querySelectorAll_send_off_example
  show ?thesis by simp
qed

lemma template_variables_hello: "template_variables (js ''hello'') = []"
  by (simp add: template_variables_def js_def)

theorem insertion_rejects_only_when_witness:
  "fst (insertPromptText (env_plain loc_chatgpt) PressCancel (js ''hello'')
          (page_of [el_textbox])) = Resolved \<and>
   ADeclare False \<in> set (trace (snd (insertPromptText (env_plain loc_chatgpt) PressCancel
          (js ''hello'') (page_of [el_textbox])))) \<and>
   fst (insertPromptText (env_plain loc_chatgpt) PressCancel (js ''hello'')
          (page_of [el_textarea])) = Resolved \<and>
   ADeclare True \<in> set (trace (snd (insertPromptText (env_plain loc_chatgpt) PressCancel
          (js ''hello'') (page_of [el_textarea])))) \<and>
   fst (insertPromptText (env_plain loc_chatgpt) PressCancel (js ''hello'') (page_of [])) =
     Rejected InputNotFound"
proof -
  have eq: "insertPromptText (env_plain loc_chatgpt) PressCancel (js ''hello'') s =
      performInsertion (env_plain loc_chatgpt) (js ''hello'') s" for s
    by (simp add: insertPromptText_def template_variables_hello)
  have none: "findAIInput loc_chatgpt [] = None"
    by (simp add: findAIInput_def first_visible_None querySelectorAll_def)
  have tr: "trace (snd (performInsertion (env_plain loc_chatgpt) (js ''hello'')
        (page_of [el_textarea]))) =
      trace (page_of [el_textarea]) @
        [AEnter PerformInsertion, AFocus 0, AAssign 0 (js ''hello''),
         ACursor 0 (length (js ''hello'')), ADispatch 0 InputEvent, ADispatch 0 ChangeEvent,
         ADispatch 0 SpaceKeydown, ADeclare True, ASettle Insertion Resolved, ADelay 100,
         ACursor 0 (length (js ''hello''))]"
    by (rule textarea_plain_run [where e = el_textarea]) simp_all
  from insertion_rejects_only_when [of "env_plain loc_chatgpt" PressCancel "js ''hello''"
      "page_of [el_textbox]"]
    insertion_rejects_only_when [of "env_plain loc_chatgpt" PressCancel "js ''hello''"
      "page_of [el_textarea]"]
    insertion_rejects_only_when [of "env_plain loc_chatgpt" PressCancel "js ''hello''"
      "page_of []"]
    all_fail_run tr
  show ?thesis
    by (simp add: eq template_variables_hello findAIInput_textbox_example
        findAIInput_single_textarea none)
qed

lemma resolve_example_parts:
  "insertPromptText en (PressSubmit typed_12) (js ''{a}-{a}-{b}'') s =
     performInsertion en (js ''1-1-2'')
       (emit AModalClose (emit (AModalOpen [js ''a'', js ''b'']) s))"
proof -
  have modal: "showVariableInputModal en [js ''a'', js ''b''] (PressSubmit typed_12) =
      Inr [(js ''a'', js ''1''), (js ''b'', js ''2'')]"
    by (simp add: showVariableInputModal_def inputs_of_example entries_example)
  show ?thesis
    by (simp add: template_variables_example modal substitute_example insertPromptText_def)
qed

lemma send_click_example:
  "new_actions (page_of [el_textarea])
     (sendClick (env_plain loc_chatgpt) (PressSubmit typed_12) (js ''{a}-{a}-{b}'')
        (page_of [el_textarea])) =
   [AModalOpen [js ''a'', js ''b''], AModalClose, AEnter PerformInsertion, AFocus 0,
    AAssign 0 (js ''1-1-2''), ACursor 0 5, ADispatch 0 InputEvent, ADispatch 0 ChangeEvent,
    ADispatch 0 SpaceKeydown, ADeclare True, ASettle Insertion Resolved, ADelay 100,
    ACursor 0 5, ADelay 100, AEnter SendPrompt, AFocus 0, ADispatch 0 EnterKeydown,
    ADispatch 0 EnterKeypress, ADelay 10, ADispatch 0 EnterKeyup, ADispatch 0 InputEvent,
    ASettle Sending Resolved]"
proof -
  define sm where
    "sm = emit AModalClose (emit (AModalOpen [js ''a'', js ''b'']) (page_of [el_textarea]))"
  define s1 where "s1 = snd (performInsertion (env_plain loc_chatgpt) (js ''1-1-2'') sm)"
  define e1 where
    "e1 = el_textarea\<lparr>val := Some (js ''1-1-2''), selectionStart := length (js ''1-1-2''),
                       selectionEnd := length (js ''1-1-2'')\<rparr>"
  have len: "length (js ''1-1-2'') = 5" by (simp add: js_def)
  have dsm: "doc sm = [el_textarea]" by (simp add: sm_def)
  have ins: "insertPromptText (env_plain loc_chatgpt) (PressSubmit typed_12)
      (js ''{a}-{a}-{b}'') (page_of [el_textarea]) =
      performInsertion (env_plain loc_chatgpt) (js ''1-1-2'') sm"
    using resolve_example_parts by (simp add: sm_def)
  have r1: "fst (performInsertion (env_plain loc_chatgpt) (js ''1-1-2'') sm) = Resolved"
    by (rule textarea_plain_run [where e = el_textarea]) (simp_all add: dsm)
  have t1: "trace s1 = trace sm @ [AEnter PerformInsertion, AFocus 0, AAssign 0 (js ''1-1-2''),
        ACursor 0 (length (js ''1-1-2'')), ADispatch 0 InputEvent, ADispatch 0 ChangeEvent,
        ADispatch 0 SpaceKeydown, ADeclare True, ASettle Insertion Resolved, ADelay 100,
        ACursor 0 (length (js ''1-1-2''))]"
    unfolding s1_def by (rule textarea_plain_run [where e = el_textarea]) (simp_all add: dsm)
  have d1: "doc s1 = [e1]"
    unfolding s1_def e1_def
    using textarea_plain_run(3) [where e = el_textarea and t = "js ''1-1-2''" and s = sm]
    by (simp add: dsm plain_112)
  have e1: "tag e1 = js ''textarea''" "attrs e1 = []" "visible e1" "\<not> disabled e1"
    by (simp_all add: e1_def visible_def el_textarea_def el_blank_def)
  have sp: "sendPrompt (env_plain loc_chatgpt) (emit (ADelay 100) s1) =
      sendViaKeyboard (env_plain loc_chatgpt) 0 (emit (AEnter SendPrompt) (emit (ADelay 100) s1))"
    using d1 e1 findAIInput_single_textarea [of e1] find_send_button_single_textarea [of e1]
    by (simp add: sendPrompt_def Let_def loc_chatgpt_not_keyboard_first send_selectors_chatgpt)
  have kb: "fst (sendViaKeyboard (env_plain loc_chatgpt) 0
        (emit (AEnter SendPrompt) (emit (ADelay 100) s1))) = Resolved \<and>
     trace (snd (sendViaKeyboard (env_plain loc_chatgpt) 0
        (emit (AEnter SendPrompt) (emit (ADelay 100) s1)))) =
       trace (emit (AEnter SendPrompt) (emit (ADelay 100) s1)) @
         [AFocus 0, ADispatch 0 EnterKeydown, ADispatch 0 EnterKeypress, ADelay 10,
          ADispatch 0 EnterKeyup, ADispatch 0 InputEvent, ASettle Sending Resolved]"
    by (rule sendViaKeyboard_run) simp
  have "sendClick (env_plain loc_chatgpt) (PressSubmit typed_12) (js ''{a}-{a}-{b}'')
        (page_of [el_textarea]) =
      snd (sendViaKeyboard (env_plain loc_chatgpt) 0
        (emit (AEnter SendPrompt) (emit (ADelay 100) s1)))"
  proof -
    have pi: "performInsertion (env_plain loc_chatgpt) (js ''1-1-2'') sm = (Resolved, s1)"
      using r1 by (simp add: s1_def prod_eq_iff)
    obtain r2 s2 where sk: "sendViaKeyboard (env_plain loc_chatgpt) 0
          (emit (AEnter SendPrompt) (emit (ADelay 100) s1)) = (r2, s2)"
      by (cases "sendViaKeyboard (env_plain loc_chatgpt) 0
          (emit (AEnter SendPrompt) (emit (ADelay 100) s1))") auto
    with kb have "r2 = Resolved" by simp
    with sk show ?thesis
      unfolding sendClick_def ins pi by (simp add: sp)
  qed
  with kb t1 show ?thesis
    by (simp add: new_actions_def sm_def len)
qed

lemma template_variables_proto:
  "template_variables (js ''{__proto__} {value}'') = [js ''__proto__'', js ''value'']"
  by (simp add: template_variables_def js_def name_unit_def trim_nonempty_def js_space_def
      set_add_def)

lemma inputs_of_proto: "inputs_of (env_ready l) [js ''__proto__'', js ''value''] = None"
  by (simp add: inputs_of_def env_ready_def env_plain_def put_example_def input_accessors_def)

text \<open>
  C10 as stated fails: on ChatGPT with a visible \<open>textarea\<close>, in a browser whose
  clipboard write would be granted, the template \<open>{__proto__} {value}\<close> makes the flow
  reject although the input element is found; nothing is copied and nothing is shown.
\<close>

theorem resolver_exception_counterexample:
  "findAIInput (location (env_ready loc_chatgpt)) (doc (page_of [el_textarea])) = Some 0 \<and>
   clipboard_api (env_ready loc_chatgpt) \<and> writeText_ok (env_ready loc_chatgpt) \<and>
   template_variables (js ''{__proto__} {value}'') = [js ''__proto__'', js ''value''] \<and>
   insertPromptText (env_ready loc_chatgpt) (PressSubmit typed_12) (js ''{__proto__} {value}'')
     (page_of [el_textarea]) =
     (Rejected Raised,
      \<lparr>doc = [el_textarea], clipboard = [], trace = [ASettle Insertion (Rejected Raised)]\<rparr>)"
proof -
  have "insertPromptText (env_ready loc_chatgpt) (PressSubmit typed_12)
      (js ''{__proto__} {value}'') (page_of [el_textarea]) =
      (Rejected Raised, emit (ASettle Insertion (Rejected Raised)) (page_of [el_textarea]))"
    by (simp add: insertPromptText_def template_variables_proto showVariableInputModal_def
        inputs_of_proto)
  then show ?thesis
    using findAIInput_single_textarea [of el_textarea]
    by (simp add: template_variables_proto env_ready_def env_plain_def page_of_def emit_def)
qed

lemma el_examples_simps [simp]:
  "tag el_stale = js ''textarea''" "attrs el_stale = []" "visible el_stale"
  "tag el_controlled = js ''textarea''" "attrs el_controlled = []" "visible el_controlled"
  "tag el_draft = js ''textarea''" "attrs el_draft = []" "visible el_draft"
  by (simp_all add: el_stale_def el_controlled_def el_draft_def el_textarea_def el_blank_def
      visible_def)

lemma plain_hello: "normalize_newlines (js ''hello'') = js ''hello''"
  by (rule normalize_newlines_plain) (simp add: js_def)

lemma template_variables_a: "template_variables (js ''{a}'') = [js ''a'']"
  by (simp add: template_variables_def js_def name_unit_def trim_nonempty_def js_space_def
      set_add_def)

text \<open>
  C6 fails on the code. On ChatGPT the located field is a \<open>textarea\<close> whose value is
  empty and whose child text is not; the clipboard write is granted and the paste
  command returns false. The test after the paste reads the text content of the
  element, finds the child text and takes the paste for done: the promise is resolved
  and the events are dispatched, but the value is still empty and both selection indices
  are 0, not \<open>hello\<close> and 5. No other strategy runs.
\<close>

theorem paste_check_leaves_value_empty:
  "findAIInput loc_chatgpt [el_stale] = Some 0 \<and> val el_stale = Some [] \<and>
   performInsertion (env_ready loc_chatgpt) (js ''hello'') (page_of [el_stale]) =
     (Resolved,
      \<lparr>doc = [el_stale], clipboard = js ''hello'',
       trace = [AEnter PerformInsertion, AFocus 0, AWriteText (js ''hello''), AClear 0, AFocus 0,
                AExecCommand Paste (Some False), ADelay 50, ACursor 0 5,
                ADispatch 0 InputEvent, ADispatch 0 ChangeEvent, ASettle Insertion Resolved]\<rparr>) \<and>
   val (doc (snd (performInsertion (env_ready loc_chatgpt) (js ''hello'') (page_of [el_stale]))) ! 0)
     = Some [] \<and>
   selectionStart
     (doc (snd (performInsertion (env_ready loc_chatgpt) (js ''hello'') (page_of [el_stale]))) ! 0)
     = 0"
proof -
  have loc: "findAIInput loc_chatgpt [el_stale] = Some 0"
    by (rule findAIInput_single_textarea) simp_all
  have len: "length (js ''hello'') = 5" by (simp add: js_def)
  have run: "performInsertion (env_ready loc_chatgpt) (js ''hello'') (page_of [el_stale]) =
     (Resolved,
      \<lparr>doc = [el_stale], clipboard = js ''hello'',
       trace = [AEnter PerformInsertion, AFocus 0, AWriteText (js ''hello''), AClear 0, AFocus 0,
                AExecCommand Paste (Some False), ADelay 50, ACursor 0 5,
                ADispatch 0 InputEvent, ADispatch 0 ChangeEvent, ASettle Insertion Resolved]\<rparr>)"
    using loc
    by (simp add: performInsertion_def clipboardPaste_def Let_def len env_ready_def env_plain_def
        assignable_def clear_content_def set_value_def hasContent_def place_cursor_def
        dispatchEvent_def setCursorToEnd_def upd_el_def emit_def page_of_def el_stale_def
        el_textarea_def el_blank_def)
  show ?thesis
    unfolding run using loc by (simp add: el_stale_def el_textarea_def el_blank_def)
qed

text \<open>
  C5 fails on the code. On ChatGPT the located field is a \<open>textarea\<close> with a change
  handler of the host framework attached; the clipboard write is refused, the
  \<open>insertText\<close> command would return false, and the framework puts the empty value back
  when the \<open>input\<close> event arrives. The direct assignment does not take, yet it counts
  as success without a look at the field: the third and the fourth strategy are not
  attempted, the handler is neither looked up nor called, and the log line says
  successful while the value is empty.
\<close>

theorem direct_write_skips_fourth_strategy:
  "findAIInput loc_chatgpt [el_controlled] = Some 0 \<and>
   reactOnChange el_controlled = Some True \<and>
   performInsertion (env_reverting loc_chatgpt) (js ''hello'') (page_of [el_controlled]) =
     (Resolved,
      \<lparr>doc = [el_controlled], clipboard = [],
       trace = [AEnter PerformInsertion, AFocus 0, AAssign 0 (js ''hello''), ACursor 0 5,
                ADispatch 0 InputEvent, ADispatch 0 ChangeEvent, ADispatch 0 SpaceKeydown,
                ADeclare True, ASettle Insertion Resolved, ADelay 100, ACursor 0 5]\<rparr>) \<and>
   val (doc (snd (performInsertion (env_reverting loc_chatgpt) (js ''hello'')
                    (page_of [el_controlled]))) ! 0) = Some []"
proof -
  have loc: "findAIInput loc_chatgpt [el_controlled] = Some 0"
    by (rule findAIInput_single_textarea) simp_all
  have len: "length (js ''hello'') = 5" by (simp add: js_def)
  have ne: "js ''hello'' \<noteq> []" by (simp add: js_def)
  have run: "performInsertion (env_reverting loc_chatgpt) (js ''hello'') (page_of [el_controlled]) =
     (Resolved,
      \<lparr>doc = [el_controlled], clipboard = [],
       trace = [AEnter PerformInsertion, AFocus 0, AAssign 0 (js ''hello''), ACursor 0 5,
                ADispatch 0 InputEvent, ADispatch 0 ChangeEvent, ADispatch 0 SpaceKeydown,
                ADeclare True, ASettle Insertion Resolved, ADelay 100, ACursor 0 5]\<rparr>)"
    using loc ne
    by (simp add: performInsertion_def clipboardPaste_def insertWithDirectMethod_def
        directMethods_def method1_def Let_def len plain_hello env_reverting_def env_denied_def
        env_plain_def set_value_def place_cursor_def dispatchEvent_def setCursorToEnd_def
        upd_el_def emit_def page_of_def el_controlled_def el_textarea_def el_blank_def)
  show ?thesis
    unfolding run using loc by (simp add: el_controlled_def el_textarea_def el_blank_def)
qed

text \<open>
  C4 fails on the code. On ChatGPT the field holds a draft of the user and the page
  sends the field on Enter. The send button of a prompt with the placeholder \<open>{a}\<close> is
  pressed and the modal is cancelled. \<open>insertPromptText\<close> returns, which resolves its
  promise, so the chain of the send button goes on: 100 ms later \<open>sendPrompt\<close> runs
  and presses Enter in the field. No insertion strategy has run, but the flow was not
  aborted, and the content of the field is not what it was.
\<close>

theorem cancelled_send_goes_on:
  "template_variables (js ''{a}'') = [js ''a''] \<and>
   val (doc (page_of [el_draft]) ! 0) = Some (js ''draft'') \<and>
   sendClick (env_submitting loc_chatgpt) PressCancel (js ''{a}'') (page_of [el_draft]) =
     \<lparr>doc = [el_textarea], clipboard = [],
      trace = [AModalOpen [js ''a''], AModalClose, ASettle Insertion Resolved, ADelay 100,
               AEnter SendPrompt, AFocus 0, ADispatch 0 EnterKeydown, ADispatch 0 EnterKeypress,
               ADelay 10, ADispatch 0 EnterKeyup, ADispatch 0 InputEvent,
               ASettle Sending Resolved]\<rparr> \<and>
   val (doc (sendClick (env_submitting loc_chatgpt) PressCancel (js ''{a}'') (page_of [el_draft])) ! 0)
     = Some []"
proof -
  have loc: "findAIInput loc_chatgpt [el_draft] = Some 0"
    by (rule findAIInput_single_textarea) simp_all
  have btn: "find_send_button [el_draft] chatgpt_send = None"
    by (rule find_send_button_single_textarea) simp
  have ins: "insertPromptText (env_submitting loc_chatgpt) PressCancel (js ''{a}'')
      (page_of [el_draft]) =
      (Resolved,
       emit (ASettle Insertion Resolved)
         (emit AModalClose (emit (AModalOpen [js ''a'']) (page_of [el_draft]))))"
    by (simp add: insertPromptText_def template_variables_a showVariableInputModal_def
        inputs_of_def)
  have ne: "js ''draft'' \<noteq> []" by (simp add: js_def)
  have run: "sendClick (env_submitting loc_chatgpt) PressCancel (js ''{a}'') (page_of [el_draft]) =
     \<lparr>doc = [el_textarea], clipboard = [],
      trace = [AModalOpen [js ''a''], AModalClose, ASettle Insertion Resolved, ADelay 100,
               AEnter SendPrompt, AFocus 0, ADispatch 0 EnterKeydown, ADispatch 0 EnterKeypress,
               ADelay 10, ADispatch 0 EnterKeyup, ADispatch 0 InputEvent,
               ASettle Sending Resolved]\<rparr>"
    unfolding sendClick_def ins
    using loc btn ne
    by (simp add: sendPrompt_def sendViaKeyboard_def Let_def loc_chatgpt_not_keyboard_first
        send_selectors_chatgpt env_submitting_def env_plain_def set_value_def dispatchEvent_def
        upd_el_def emit_def page_of_def el_draft_def el_textarea_def el_blank_def)
  show ?thesis
    unfolding run by (simp add: template_variables_a el_draft_def el_textarea_def el_blank_def)
qed

end
